theory Spec2Isabelle
  imports Complex_Main "HOL-Library.State_Monad"
begin

section \<open>Numbers, errors and the vector library\<close>

text \<open>
  JavaScript numbers are modelled as real numbers: the development describes the arithmetic
  the code writes down, not its IEEE-754 rounding. The one exception is the progress of a
  camera transition, which is kept in double precision, because the comparison
  \<open>progress >= 1\<close> on that running sum decides when the transition ends. An exception does
  not undo the assignments made before it, so an operation that can throw returns the state
  it has reached together with an optional error.
\<close>

datatype error = TypeError

text \<open>
  Rounding to double precision: the nearest multiple of the unit in the last place, ties to
  the even multiple. The unit is \<open>2 ^ (e - 52)\<close> for a magnitude in \<open>[2 ^ e, 2 ^ (e + 1))\<close>,
  and \<open>2 ^ (- 1074)\<close> below \<open>2 ^ (- 1022)\<close>. Magnitudes from \<open>2 ^ 1024\<close> on, which a double
  turns into Infinity, are outside the model.
\<close>

definition round_half_even :: "real \<Rightarrow> int" where
  "round_half_even y =
     (let n = \<lfloor>y\<rfloor>
      in if y - of_int n < 1 / 2 then n
         else if 1 / 2 < y - of_int n then n + 1
         else if even n then n else n + 1)"

definition double_exponent :: "real \<Rightarrow> int" where
  "double_exponent x = max \<lfloor>log 2 \<bar>x\<bar>\<rfloor> (- 1022)"

definition to_double :: "real \<Rightarrow> real" where
  "to_double x =
     (if x = 0 then 0
      else (let u = 2 powr (of_int (double_exponent x) - 52)
            in u * of_int (round_half_even (x / u))))"

text \<open>The remainder operator \<open>%\<close>: the result has the sign of the dividend.\<close>

definition js_rem :: "real \<Rightarrow> real \<Rightarrow> real" where
  "js_rem a b = sgn a * (\<bar>a\<bar> - \<bar>b\<bar> * of_int \<lfloor>\<bar>a\<bar> / \<bar>b\<bar>\<rfloor>)"

text \<open>\<open>THREE.MathUtils.clamp\<close>, \<open>lerp\<close> and \<open>degToRad\<close>.\<close>

definition clamp :: "real \<Rightarrow> real \<Rightarrow> real \<Rightarrow> real" where
  "clamp v lo hi = max lo (min hi v)"

definition lerp :: "real \<Rightarrow> real \<Rightarrow> real \<Rightarrow> real" where
  "lerp x y t = (1 - t) * x + t * y"

definition degToRad :: "real \<Rightarrow> real" where
  "degToRad d = d * (pi / 180)"

text \<open>\<open>Math.atan2\<close>, with its result in \<open>(-\<pi>, \<pi>]\<close>.\<close>

definition atan2 :: "real \<Rightarrow> real \<Rightarrow> real" where
  "atan2 y x =
     (if 0 < x then arctan (y / x)
      else if x < 0 then (if 0 \<le> y then arctan (y / x) + pi else arctan (y / x) - pi)
      else if 0 < y then pi / 2
      else if y < 0 then - (pi / 2)
      else 0)"

record vec3 =
  vx :: real
  vy :: real
  vz :: real

definition Vector3 :: "real \<Rightarrow> real \<Rightarrow> real \<Rightarrow> vec3" where
  "Vector3 a b c = \<lparr>vx = a, vy = b, vz = c\<rparr>"

definition vlength :: "vec3 \<Rightarrow> real" where
  "vlength v = sqrt (vx v * vx v + vy v * vy v + vz v * vz v)"

definition vadd :: "vec3 \<Rightarrow> vec3 \<Rightarrow> vec3" where
  "vadd a b = Vector3 (vx a + vx b) (vy a + vy b) (vz a + vz b)"

definition vsub :: "vec3 \<Rightarrow> vec3 \<Rightarrow> vec3" where
  "vsub a b = Vector3 (vx a - vx b) (vy a - vy b) (vz a - vz b)"

definition multiplyScalar :: "vec3 \<Rightarrow> real \<Rightarrow> vec3" where
  "multiplyScalar v s = Vector3 (vx v * s) (vy v * s) (vz v * s)"

definition crossVectors :: "vec3 \<Rightarrow> vec3 \<Rightarrow> vec3" where
  "crossVectors a b =
     Vector3 (vy a * vz b - vz a * vy b) (vz a * vx b - vx a * vz b) (vx a * vy b - vy a * vx b)"

text \<open>\<open>Vector3.normalize\<close> divides by \<open>length() || 1\<close>: the zero vector stays zero.\<close>

definition normalize :: "vec3 \<Rightarrow> vec3" where
  "normalize v = (let l = vlength v in multiplyScalar v (1 / (if l = 0 then 1 else l)))"

definition vlerp :: "vec3 \<Rightarrow> vec3 \<Rightarrow> real \<Rightarrow> vec3" where
  "vlerp a b t =
     Vector3 (vx a + (vx b - vx a) * t) (vy a + (vy b - vy a) * t) (vz a + (vz b - vz a) * t)"

text \<open>
  A rotation is kept as its matrix, given by the images of the three axes; a quaternion
  of the scene graph is the same rotation. \<open>applyRotation\<close> is \<open>applyQuaternion\<close>.
\<close>

record rot3 =
  col_x :: vec3
  col_y :: vec3
  col_z :: vec3

definition applyRotation :: "rot3 \<Rightarrow> vec3 \<Rightarrow> vec3" where
  "applyRotation m v =
     vadd (vadd (multiplyScalar (col_x m) (vx v)) (multiplyScalar (col_y m) (vy v)))
          (multiplyScalar (col_z m) (vz v))"

text \<open>\<open>new THREE.Euler(x, y, z, 'YXZ')\<close> as a rotation (Matrix4.makeRotationFromEuler).\<close>

definition Euler_YXZ :: "real \<Rightarrow> real \<Rightarrow> real \<Rightarrow> rot3" where
  "Euler_YXZ ex ey ez =
     (let a = cos ex; b = sin ex; c = cos ey; d = sin ey; e = cos ez; f = sin ez
      in \<lparr>col_x = Vector3 (c * e + d * f * b) (a * f) (c * f * b - d * e),
          col_y = Vector3 (d * e * b - c * f) (a * e) (d * f + c * e * b),
          col_z = Vector3 (a * d) (- b) (a * c)\<rparr>)"

definition applyEuler :: "vec3 \<Rightarrow> rot3 \<Rightarrow> vec3" where
  "applyEuler v e = applyRotation e v"

text \<open>\<open>Matrix4.lookAt(eye, target, up)\<close>, with its two degenerate cases.\<close>

definition lookAt :: "vec3 \<Rightarrow> vec3 \<Rightarrow> vec3 \<Rightarrow> rot3" where
  "lookAt eye target up =
     (let z0 = vsub eye target;
          z1 = (if vlength z0 = 0 then z0\<lparr>vz := 1\<rparr> else z0);
          z2 = normalize z1;
          x0 = crossVectors up z2;
          z3 = (if vlength x0 = 0
                then normalize (if \<bar>vz up\<bar> = 1 then z2\<lparr>vx := vx z2 + 0.0001\<rparr>
                                else z2\<lparr>vz := vz z2 + 0.0001\<rparr>)
                else z2);
          x1 = (if vlength x0 = 0 then crossVectors up z3 else x0);
          x2 = normalize x1;
          y = crossVectors z3 x2
      in \<lparr>col_x = x2, col_y = y, col_z = z3\<rparr>)"

section \<open>Earth: coordinates and the day/night overlay\<close>

text \<open>
  The functions of the module objects carry the module's name: \<open>Earth_updateDayNight\<close> is
  \<open>Earth.updateDayNight\<close>. Of the Earth object the model keeps the opacity of the
  night-lights material; \<open>nightLights\<close> is \<open>None\<close> while the layer has not been created.
  The zero vector, where \<open>Earth.vector3ToLatLon\<close> divides by zero and yields NaN, is
  outside the model.
\<close>

record earth =
  nightLights :: "real option"

definition radius :: real where
  "radius = 6371"

definition sceneRadius :: real where
  "sceneRadius = 100"

record latlon =
  lat :: real
  lon :: real
  geo_altitude :: real

text \<open>\<open>Earth.getLocalHour\<close>; the UTC clock reading (hours plus minutes / 60) is an input.\<close>

definition Earth_getLocalHour :: "real \<Rightarrow> real \<Rightarrow> real" where
  "Earth_getLocalHour utcHours longitude = js_rem (utcHours + longitude / 15 + 24) 24"

text \<open>The local \<open>nightOpacity\<close> of \<open>Earth.updateDayNight\<close>, the target of the overlay.\<close>

definition nightOpacity :: "real \<Rightarrow> latlon \<Rightarrow> string \<Rightarrow> real" where
  "nightOpacity utcHours position mode =
     (if mode = ''night'' then 1
      else if mode = ''day'' then 0
      else (let localHour = Earth_getLocalHour utcHours (lon position)
            in if 6 \<le> localHour \<and> localHour \<le> 7 then 1 - (localHour - 6)
               else if 18 \<le> localHour \<and> localHour \<le> 19 then localHour - 18
               else if 7 < localHour \<and> localHour < 18 then 0
               else 1))"

definition Earth_updateDayNight :: "real \<Rightarrow> latlon \<Rightarrow> string \<Rightarrow> earth \<Rightarrow> earth" where
  "Earth_updateDayNight utcHours position mode e =
     (case nightLights e of
        None \<Rightarrow> e
      | Some currentOpacity \<Rightarrow>
          e\<lparr>nightLights :=
               Some (currentOpacity + (nightOpacity utcHours position mode - currentOpacity) * 0.02)\<rparr>)"

definition Earth_latLonToVector3 :: "real \<Rightarrow> real \<Rightarrow> real \<Rightarrow> vec3" where
  "Earth_latLonToVector3 la lo alt =
     (let phi = (90 - la) * (pi / 180);
          theta = (lo + 180) * (pi / 180);
          r = sceneRadius + alt
      in Vector3 (- r * sin phi * cos theta) (r * cos phi) (r * sin phi * sin theta))"

definition Earth_vector3ToLatLon :: "vec3 \<Rightarrow> latlon" where
  "Earth_vector3ToLatLon position =
     (let r = vlength position
      in \<lparr>lat = 90 - arccos (vy position / r) * (180 / pi),
          lon = js_rem (atan2 (vz position) (- vx position) * (180 / pi) - 180 + 360) 360 - 180,
          geo_altitude = r - sceneRadius\<rparr>)"

section \<open>Aircraft: specifications, state and flight physics\<close>

text \<open>
  Field names that several objects of the source share are told apart by a prefix:
  \<open>spec_speed\<close> is \<open>speed\<close> of an entry of \<open>Aircraft.types\<close>, \<open>in_pitch\<close> is
  \<open>Aircraft.input.pitch\<close>, \<open>ap_lat\<close> is \<open>lat\<close> of an airport, \<open>g_position\<close> is
  \<open>group.position\<close>. The fields of \<open>Aircraft.state\<close> keep their names.
\<close>

record aircraft_spec =
  spec_name :: string
  spec_speed :: real
  spec_maxSpeed :: real
  spec_minSpeed :: real
  spec_handling :: real
  spec_scale :: real

definition cessna :: aircraft_spec where
  "cessna = \<lparr>spec_name = ''cessna'', spec_speed = 300, spec_maxSpeed = 400,
              spec_minSpeed = 100, spec_handling = 1.0, spec_scale = 0.3\<rparr>"

definition airliner :: aircraft_spec where
  "airliner = \<lparr>spec_name = ''airliner'', spec_speed = 850, spec_maxSpeed = 1000,
                spec_minSpeed = 300, spec_handling = 0.7, spec_scale = 0.5\<rparr>"

definition jet :: aircraft_spec where
  "jet = \<lparr>spec_name = ''jet'', spec_speed = 1500, spec_maxSpeed = 2000,
           spec_minSpeed = 500, spec_handling = 1.5, spec_scale = 0.35\<rparr>"

text \<open>
  \<open>this.types[type]\<close>: the lookup of a name in \<open>Aircraft.types\<close>. The object has three
  properties of its own and inherits those of \<open>Object.prototype\<close>; an inherited property is
  a function or an object, so it is truthy and is no specification. Any other name gives
  \<open>undefined\<close>, here \<open>None\<close>.
\<close>

datatype types_entry = Spec aircraft_spec | Inherited

definition Object_prototype_names :: "string list" where
  "Object_prototype_names =
     [''constructor'', ''__defineGetter__'', ''__defineSetter__'', ''hasOwnProperty'',
      ''__lookupGetter__'', ''__lookupSetter__'', ''isPrototypeOf'', ''propertyIsEnumerable'',
      ''toString'', ''valueOf'', ''__proto__'', ''toLocaleString'']"

definition types :: "string \<Rightarrow> types_entry option" where
  "types t =
     (if t = ''cessna'' then Some (Spec cessna)
      else if t = ''airliner'' then Some (Spec airliner)
      else if t = ''jet'' then Some (Spec jet)
      else if t \<in> set Object_prototype_names then Some Inherited
      else None)"

record airport =
  ap_ident :: string
  ap_lat :: real
  ap_lon :: real

record aircraft_state =
  position :: vec3
  velocity :: vec3
  speed :: real
  altitude :: real
  heading :: real
  pitch :: real
  roll :: real
  isFlying :: bool
  takeoffAirport :: "airport option"
  destinationAirport :: "airport option"
  flightStartTime :: "real option"

record control_input =
  in_pitch :: real
  in_roll :: real
  in_yaw :: real
  in_throttle :: real

text \<open>The scene-graph objects: the aircraft's group and the mesh built for a type.\<close>

record group3d =
  g_position :: vec3
  g_quaternion :: rot3

record mesh3d =
  mesh_type :: string
  mesh_scale :: real
  mesh_rotation :: rot3

text \<open>
  The Aircraft object. \<open>getFlightPhase\<close> is the property of that name, which
  \<open>Camera.update\<close> calls as a method: \<open>None\<close> when the object has no such property.
\<close>

record aircraft =
  mesh :: "mesh3d option"
  group :: "group3d option"
  currentType :: "aircraft_spec option"
  state :: aircraft_state
  input :: control_input
  getFlightPhase :: "(aircraft_state \<Rightarrow> string) option"

definition identity_rotation :: rot3 where
  "identity_rotation = \<lparr>col_x = Vector3 1 0 0, col_y = Vector3 0 1 0, col_z = Vector3 0 0 1\<rparr>"

text \<open>The object literal \<open>const Aircraft = {...}\<close>: it defines no \<open>getFlightPhase\<close>.\<close>

definition Aircraft :: aircraft where
  "Aircraft =
     \<lparr>mesh = None, group = None, currentType = None,
      state = \<lparr>position = Vector3 0 0 0, velocity = Vector3 0 0 0, speed = 0, altitude = 10,
               heading = 0, pitch = 0, roll = 0, isFlying = False, takeoffAirport = None,
               destinationAirport = None, flightStartTime = None\<rparr>,
      input = \<lparr>in_pitch = 0, in_roll = 0, in_yaw = 0, in_throttle = 0\<rparr>,
      getFlightPhase = None\<rparr>"

text \<open>\<open>Aircraft.createAircraftMesh\<close>: of the geometry, the type built and its scale.\<close>

definition createAircraftMesh :: "string \<Rightarrow> aircraft_spec \<Rightarrow> mesh3d" where
  "createAircraftMesh t spec =
     \<lparr>mesh_type = t, mesh_scale = spec_scale spec, mesh_rotation = identity_rotation\<rparr>"

text \<open>
  The part of \<open>Aircraft.setType\<close> after the guard, for a name \<open>t\<close> whose entry is the
  specification \<open>spec\<close>. Removing the old mesh and adding the new one go through
  \<open>this.group\<close>, which throws when there is no group.
\<close>

definition setType_body :: "string \<Rightarrow> aircraft_spec \<Rightarrow> aircraft \<Rightarrow> aircraft \<times> error option" where
  "setType_body t spec a =
     (let a1 = a\<lparr>currentType := Some spec, state := (state a)\<lparr>speed := spec_speed spec\<rparr>\<rparr>
      in if mesh a1 \<noteq> None \<and> group a1 = None then (a1, Some TypeError)
         else let a2 = a1\<lparr>mesh := Some (createAircraftMesh t spec)\<rparr>
              in if group a2 = None then (a2, Some TypeError) else (a2, None))"

text \<open>
  \<open>Aircraft.setType\<close>. \<open>Done a e w\<close>: the call leaves the aircraft \<open>a\<close>, has thrown \<open>e\<close> if
  any, and \<open>w\<close> tells whether it called \<open>console.warn\<close>. A name without an entry is
  replaced by \<open>'cessna'\<close> after the warning, and \<open>this.types['cessna']\<close> is the Cessna's
  entry. For an inherited name the guard is skipped: \<open>currentType\<close> becomes an object that
  is no specification and \<open>state.speed\<close> becomes \<open>undefined\<close>. The aircraft of this model
  have a specification or none as their current type and real numbers as their speed, so
  that outcome is \<open>NotASpec\<close> and carries no aircraft.
\<close>

datatype setType_outcome =
  Done (aircraft_of: aircraft) (thrown: "error option") (warned: bool)
| NotASpec

definition Aircraft_setType :: "string \<Rightarrow> aircraft \<Rightarrow> setType_outcome" where
  "Aircraft_setType t0 a =
     (case types t0 of
        None \<Rightarrow> (let (a', e) = setType_body ''cessna'' cessna a in Done a' e True)
      | Some (Spec spec) \<Rightarrow> (let (a', e) = setType_body t0 spec a in Done a' e False)
      | Some Inherited \<Rightarrow> NotASpec)"

definition Aircraft_init :: "string \<Rightarrow> aircraft \<Rightarrow> setType_outcome" where
  "Aircraft_init t a =
     Aircraft_setType t
       (a\<lparr>group := Some \<lparr>g_position = Vector3 0 0 0, g_quaternion = identity_rotation\<rparr>\<rparr>)"

text \<open>\<open>Aircraft.setInput\<close>: a channel that is \<open>undefined\<close> in the argument is \<open>None\<close>.\<close>

record input_arg =
  arg_pitch :: "real option"
  arg_roll :: "real option"
  arg_yaw :: "real option"
  arg_throttle :: "real option"

definition Aircraft_setInput :: "input_arg \<Rightarrow> aircraft \<Rightarrow> aircraft" where
  "Aircraft_setInput i a =
     a\<lparr>input :=
         \<lparr>in_pitch = (case arg_pitch i of None \<Rightarrow> in_pitch (input a) | Some v \<Rightarrow> clamp v (- 1) 1),
          in_roll = (case arg_roll i of None \<Rightarrow> in_roll (input a) | Some v \<Rightarrow> clamp v (- 1) 1),
          in_yaw = (case arg_yaw i of None \<Rightarrow> in_yaw (input a) | Some v \<Rightarrow> clamp v (- 1) 1),
          in_throttle =
            (case arg_throttle i of None \<Rightarrow> in_throttle (input a) | Some v \<Rightarrow> clamp v (- 1) 1)\<rparr>\<rparr>"

text \<open>
  \<open>Aircraft.takeoff\<close>; \<open>now\<close> is the reading of \<open>Date.now()\<close>. Without a current type
  the read of \<open>this.currentType.speed\<close> throws, after the assignments before it.
\<close>

definition Aircraft_takeoff :: "real \<Rightarrow> airport \<Rightarrow> aircraft \<Rightarrow> aircraft \<times> error option" where
  "Aircraft_takeoff now ap a =
     (let s1 = (state a)\<lparr>position := Earth_latLonToVector3 (ap_lat ap) (ap_lon ap) 2,
                          altitude := 2, heading := 0, pitch := 0, roll := 0\<rparr>
      in case currentType a of
           None \<Rightarrow> (a\<lparr>state := s1\<rparr>, Some TypeError)
         | Some spec \<Rightarrow>
             (let s2 = s1\<lparr>speed := spec_speed spec, isFlying := True,
                          takeoffAirport := Some ap, flightStartTime := Some now\<rparr>
              in case group a of
                   None \<Rightarrow> (a\<lparr>state := s2\<rparr>, Some TypeError)
                 | Some g \<Rightarrow> (a\<lparr>state := s2, group := Some (g\<lparr>g_position := position s2\<rparr>)\<rparr>, None)))"

definition Aircraft_getPosition :: "aircraft \<Rightarrow> latlon" where
  "Aircraft_getPosition a = Earth_vector3ToLatLon (position (state a))"

text \<open>
  \<open>Aircraft.update\<close>, in the order of the source: the controls, throttle, clamps and
  self-levelling (\<open>applyControls\<close>), the step along the forward direction
  (\<open>moveAircraft\<close>), the altitude floor and ceiling (\<open>keepAboveSurface\<close>), and the
  orientation of the group and the mesh (\<open>orientAircraft\<close>).
\<close>

definition applyControls ::
  "aircraft_spec \<Rightarrow> control_input \<Rightarrow> real \<Rightarrow> aircraft_state \<Rightarrow> aircraft_state" where
  "applyControls spec i deltaTime s =
     (let handling = spec_handling spec;
          pitch1 = pitch s + in_pitch i * handling * 60 * deltaTime;
          roll1 = roll s + in_roll i * handling * 60 * deltaTime;
          heading1 = heading s + in_yaw i * handling * 30 * deltaTime;
          heading2 = heading1 + roll1 * 0.5 * deltaTime;
          targetSpeed = speed s + in_throttle i * 200;
          speed1 = clamp (speed s + (targetSpeed - speed s) * deltaTime)
                         (spec_minSpeed spec) (spec_maxSpeed spec);
          pitch2 = clamp pitch1 (- 80) 80;
          roll2 = clamp roll1 (- 60) 60;
          heading3 = js_rem (heading2 + 360) 360;
          pitch3 = (if in_pitch i = 0 then pitch2 * 0.98 else pitch2);
          roll3 = (if in_roll i = 0 then roll2 * 0.98 else roll2)
      in s\<lparr>pitch := pitch3, roll := roll3, heading := heading3, speed := speed1\<rparr>)"

text \<open>The local \<open>forward\<close>: the x axis turned by heading, pitch and roll.\<close>

definition forward :: "aircraft_state \<Rightarrow> vec3" where
  "forward s =
     applyEuler (Vector3 1 0 0)
       (Euler_YXZ (degToRad (pitch s)) (degToRad (heading s)) (degToRad (roll s)))"

definition moveAircraft :: "real \<Rightarrow> aircraft_state \<Rightarrow> aircraft_state" where
  "moveAircraft deltaTime s =
     (let speedInUnits = speed s / 3600 * deltaTime;
          scaledSpeed = speedInUnits * 0.01;
          v = multiplyScalar (forward s) scaledSpeed
      in s\<lparr>velocity := v, position := vadd (position s) v\<rparr>)"

definition keepAboveSurface :: "aircraft_state \<Rightarrow> aircraft_state" where
  "keepAboveSurface s =
     (let distFromCenter = vlength (position s);
          minAltitude = sceneRadius + 0.5;
          maxAltitude = sceneRadius + 50
      in if distFromCenter < minAltitude
         then s\<lparr>position := multiplyScalar (normalize (position s)) minAltitude, altitude := 0.5\<rparr>
         else if distFromCenter > maxAltitude
         then s\<lparr>position := multiplyScalar (normalize (position s)) maxAltitude, altitude := 50\<rparr>
         else s\<lparr>altitude := distFromCenter - sceneRadius\<rparr>)"

definition orientAircraft :: "aircraft_state \<Rightarrow> group3d \<Rightarrow> mesh3d \<Rightarrow> group3d \<times> mesh3d" where
  "orientAircraft s g m =
     (let up = normalize (position s);
          lookAtPoint = vadd (position s) (velocity s);
          matrix = lookAt (position s) lookAtPoint up;
          localRotation = Euler_YXZ (- degToRad (pitch s)) 0 (- degToRad (roll s))
      in (g\<lparr>g_position := position s, g_quaternion := matrix\<rparr>,
          m\<lparr>mesh_rotation := localRotation\<rparr>))"

definition Aircraft_update :: "real \<Rightarrow> aircraft \<Rightarrow> aircraft \<times> error option" where
  "Aircraft_update deltaTime a =
     (case mesh a of
        None \<Rightarrow> (a, None)
      | Some m \<Rightarrow>
          if \<not> isFlying (state a) then (a, None)
          else (case currentType a of
                  None \<Rightarrow> (a, Some TypeError)
                | Some spec \<Rightarrow>
                    (let s = keepAboveSurface
                               (moveAircraft deltaTime
                                  (applyControls spec (input a) deltaTime (state a)));
                         a1 = a\<lparr>state := s\<rparr>
                     in case group a1 of
                          None \<Rightarrow> (a1, Some TypeError)
                        | Some g \<Rightarrow>
                            (let (g1, m1) = orientAircraft s g m
                             in (a1\<lparr>group := Some g1, mesh := Some m1\<rparr>, None)))))"

section \<open>Camera: views, transitions and the per-tick update\<close>

text \<open>
  \<open>cam_state\<close> is \<open>Camera.state\<close>, \<open>tr_from\<close> and \<open>tr_to\<close> are \<open>transition.from\<close> and
  \<open>transition.to\<close> (\<open>None\<close> for \<open>null\<close>), \<open>shake_time\<close> is \<open>shake.time\<close>, and the
  fields of the rendering camera start with \<open>c_\<close>.
\<close>

record view_params =
  distance :: real
  height :: real
  fov :: real

record camera_transition =
  active :: bool
  progress :: real
  tr_from :: "view_params option"
  tr_to :: "view_params option"
  duration :: real

record camera_shake =
  intensity :: real
  shake_time :: real

record three_camera =
  c_fov :: real
  c_position :: vec3
  c_up :: vec3
  c_quaternion :: rot3

record camera_controller =
  camera :: "three_camera option"
  currentView :: string
  transition :: camera_transition
  cam_state :: view_params
  shake :: camera_shake
  baseFOV :: real
  currentFOV :: real

definition views :: "string list" where
  "views = [''thirdPerson'', ''cockpit'', ''overhead'']"

definition viewSettings :: "string \<Rightarrow> view_params option" where
  "viewSettings v =
     (if v = ''thirdPerson'' then Some \<lparr>distance = 5, height = 2, fov = 60\<rparr>
      else if v = ''cockpit'' then Some \<lparr>distance = 0, height = 0.2, fov = 90\<rparr>
      else if v = ''overhead'' then Some \<lparr>distance = 20, height = 15, fov = 45\<rparr>
      else None)"

text \<open>The object literal \<open>const Camera = {...}\<close>.\<close>

definition Camera :: camera_controller where
  "Camera =
     \<lparr>camera = None, currentView = ''thirdPerson'',
      transition = \<lparr>active = False, progress = 0, tr_from = None, tr_to = None, duration = 0.5\<rparr>,
      cam_state = \<lparr>distance = 5, height = 2, fov = 60\<rparr>,
      shake = \<lparr>intensity = 0, shake_time = 0\<rparr>,
      baseFOV = 60, currentFOV = 60\<rparr>"

text \<open>
  \<open>Camera.setView\<close>. Every name of \<open>views\<close> has settings, so after the membership test
  the lookup in the second branch finds them.
\<close>

definition Camera_setView ::
  "string \<Rightarrow> bool \<Rightarrow> camera_controller \<Rightarrow> camera_controller \<times> error option" where
  "Camera_setView view animate c =
     (if view \<notin> set views then (c, None)
      else if animate \<and> currentView c \<noteq> view
      then (c\<lparr>transition := (transition c)\<lparr>active := True, progress := 0,
                                              tr_from := Some (cam_state c),
                                              tr_to := viewSettings view\<rparr>,
              currentView := view\<rparr>, None)
      else (case viewSettings view of
              None \<Rightarrow> (c, Some TypeError)
            | Some p \<Rightarrow>
                (let c1 = c\<lparr>cam_state := p\<rparr>
                 in case camera c1 of
                      None \<Rightarrow> (c1, Some TypeError)
                    | Some k \<Rightarrow> (c1\<lparr>camera := Some (k\<lparr>c_fov := fov p\<rparr>), currentView := view\<rparr>, None))))"

definition Camera_init :: "three_camera \<Rightarrow> camera_controller \<Rightarrow> camera_controller \<times> error option" where
  "Camera_init k c = Camera_setView ''thirdPerson'' False (c\<lparr>camera := Some k\<rparr>)"

text \<open>\<open>Array.prototype.indexOf\<close>: the first position of the element, or \<open>-1\<close>.\<close>

fun indexOf :: "'a list \<Rightarrow> 'a \<Rightarrow> int" where
  "indexOf [] y = - 1"
| "indexOf (x # xs) y =
     (if x = y then 0 else (let i = indexOf xs y in if i < 0 then - 1 else i + 1))"

definition Camera_nextView :: "camera_controller \<Rightarrow> camera_controller \<times> error option" where
  "Camera_nextView c =
     (let currentIndex = indexOf views (currentView c);
          nextIndex = (currentIndex + 1) mod int (length views)
      in Camera_setView (views ! nat nextIndex) True c)"

definition easeInOutCubic :: "real \<Rightarrow> real" where
  "easeInOutCubic t = (if t < 0.5 then 4 * t * t * t else 1 - (- 2 * t + 2) ^ 3 / 2)"

text \<open>Sequencing of steps that can throw: the first error ends the call.\<close>

definition andThen ::
  "'s \<times> error option \<Rightarrow> ('s \<Rightarrow> 's \<times> error option) \<Rightarrow> 's \<times> error option" where
  "andThen r f = (case snd r of None \<Rightarrow> f (fst r) | Some e \<Rightarrow> r)"

text \<open>
  \<open>Camera.update\<close>, in the order of the source: the transition animation
  (\<open>handleTransition\<close>), the speed-based field of view (\<open>speedFOV\<close>), the shake
  (\<open>cameraShake\<close>) and the pose for the current view (\<open>cameraPose\<close>). In
  \<open>handleTransition\<close> the quotient \<open>deltaTime / duration\<close> and the sum of
  \<open>progress += deltaTime / duration\<close> are rounded to double precision, as the code computes
  them; the easing and the interpolation are in real numbers.
\<close>

definition handleTransition :: "real \<Rightarrow> camera_controller \<Rightarrow> camera_controller \<times> error option" where
  "handleTransition deltaTime c =
     (if \<not> active (transition c) then (c, None)
      else (let tr = transition c;
                p = to_double (progress tr + to_double (deltaTime / duration tr));
                tr1 = (if p \<ge> 1 then tr\<lparr>active := False, progress := 1\<rparr> else tr\<lparr>progress := p\<rparr>);
                c1 = c\<lparr>transition := tr1\<rparr>;
                t = easeInOutCubic (progress tr1)
            in case tr_from tr1 of
                 None \<Rightarrow> (c1, Some TypeError)
               | Some f \<Rightarrow>
                   (case tr_to tr1 of
                      None \<Rightarrow> (c1, Some TypeError)
                    | Some g \<Rightarrow>
                        (let st = \<lparr>distance = lerp (distance f) (distance g) t,
                                   height = lerp (height f) (height g) t,
                                   fov = lerp (fov f) (fov g) t\<rparr>
                         in (c1\<lparr>cam_state := st, baseFOV := fov st\<rparr>, None)))))"

definition speedFOV :: "aircraft \<Rightarrow> camera_controller \<Rightarrow> camera_controller \<times> error option" where
  "speedFOV a c =
     (case currentType a of
        None \<Rightarrow> (c, Some TypeError)
      | Some spec \<Rightarrow>
          (let speedRatio = speed (state a) / spec_maxSpeed spec;
               targetFOV = baseFOV c + speedRatio * 15;
               c1 = c\<lparr>currentFOV := lerp (currentFOV c) targetFOV 0.05\<rparr>
           in case camera c1 of
                None \<Rightarrow> (c1, Some TypeError)
              | Some k \<Rightarrow> (c1\<lparr>camera := Some (k\<lparr>c_fov := currentFOV c1\<rparr>)\<rparr>, None)))"

definition cameraShake ::
  "aircraft \<Rightarrow> real \<Rightarrow> camera_controller \<Rightarrow> camera_controller \<times> error option" where
  "cameraShake a deltaTime c =
     (case getFlightPhase a of
        None \<Rightarrow> (c, Some TypeError)
      | Some phaseOf \<Rightarrow>
          (let flightPhase = phaseOf (state a);
               i = (if flightPhase = ''takeoff_roll'' \<or> flightPhase = ''climbing'' then 0.05
                    else if flightPhase = ''taxiing'' then 0.02
                    else lerp (intensity (shake c)) 0 0.05)
           in (c\<lparr>shake := \<lparr>intensity = i, shake_time = shake_time (shake c) + deltaTime * 20\<rparr>\<rparr>,
               None)))"

text \<open>\<open>camera.lookAt(target)\<close> of a camera without a parent.\<close>

definition cameraLookAt :: "vec3 \<Rightarrow> three_camera \<Rightarrow> three_camera" where
  "cameraLookAt target k = k\<lparr>c_quaternion := lookAt (c_position k) target (c_up k)\<rparr>"

text \<open>
  The three branches of the pose. In the third-person branch \<open>backward.multiplyScalar\<close>
  scales \<open>backward\<close> itself, so the shake's \<open>right\<close> axis is computed from the scaled vector.
\<close>

definition poseCockpit :: "group3d \<Rightarrow> mesh3d option \<Rightarrow> three_camera \<Rightarrow> three_camera \<times> error option" where
  "poseCockpit g mo k =
     (let aircraftPos = g_position g;
          up = normalize aircraftPos;
          cockpitOffset = applyRotation (g_quaternion g) (Vector3 0.5 0.2 0);
          k1 = k\<lparr>c_position := vadd aircraftPos cockpitOffset\<rparr>
      in case mo of
           None \<Rightarrow> (k1, Some TypeError)
         | Some m \<Rightarrow>
             (let fwd = applyEuler (applyRotation (g_quaternion g) (Vector3 1 0 0)) (mesh_rotation m);
                  lookAtPos = vadd (c_position k1) (multiplyScalar fwd 10)
              in ((cameraLookAt lookAtPos k1)\<lparr>c_up := up\<rparr>, None)))"

definition poseThirdPerson :: "group3d \<Rightarrow> view_params \<Rightarrow> camera_shake \<Rightarrow> three_camera \<Rightarrow> three_camera" where
  "poseThirdPerson g st sh k =
     (let aircraftPos = g_position g;
          up = normalize aircraftPos;
          backward = applyRotation (g_quaternion g) (Vector3 (- 1) 0 0);
          upOffset = multiplyScalar up (height st);
          backOffset = multiplyScalar backward (distance st);
          targetPos = vadd (vadd aircraftPos upOffset) backOffset;
          p1 = vlerp (c_position k) targetPos 0.03;
          p2 = (if intensity sh > 0.001
                then (let shakeX = sin (shake_time sh) * intensity sh;
                          shakeY = cos (shake_time sh * 1.3) * intensity sh;
                          right = normalize (crossVectors up backOffset)
                      in vadd (vadd p1 (multiplyScalar up shakeY)) (multiplyScalar right shakeX))
                else p1)
      in (cameraLookAt aircraftPos (k\<lparr>c_position := p2\<rparr>))\<lparr>c_up := up\<rparr>)"

definition poseOverhead :: "group3d \<Rightarrow> view_params \<Rightarrow> three_camera \<Rightarrow> three_camera" where
  "poseOverhead g st k =
     (let aircraftPos = g_position g;
          up = normalize aircraftPos;
          upOffset = multiplyScalar up (height st);
          backOffset = multiplyScalar (applyRotation (g_quaternion g) (Vector3 (- 1) 0 0))
                                      (distance st * 0.5);
          targetPos = vadd (vadd aircraftPos upOffset) backOffset
      in (cameraLookAt aircraftPos (k\<lparr>c_position := vlerp (c_position k) targetPos 0.03\<rparr>))
           \<lparr>c_up := up\<rparr>)"

definition cameraPose :: "aircraft \<Rightarrow> camera_controller \<Rightarrow> camera_controller \<times> error option" where
  "cameraPose a c =
     (case group a of
        None \<Rightarrow> (c, Some TypeError)
      | Some g \<Rightarrow>
          (case camera c of
             None \<Rightarrow> (c, Some TypeError)
           | Some k \<Rightarrow>
               if currentView c = ''cockpit''
               then (let (k1, e) = poseCockpit g (mesh a) k in (c\<lparr>camera := Some k1\<rparr>, e))
               else if currentView c = ''thirdPerson''
               then (c\<lparr>camera := Some (poseThirdPerson g (cam_state c) (shake c) k)\<rparr>, None)
               else if currentView c = ''overhead''
               then (c\<lparr>camera := Some (poseOverhead g (cam_state c) k)\<rparr>, None)
               else (c, None)))"

definition Camera_update ::
  "aircraft \<Rightarrow> real \<Rightarrow> camera_controller \<Rightarrow> camera_controller \<times> error option" where
  "Camera_update a deltaTime c =
     (if \<not> isFlying (state a) \<or> group a = None then (c, None)
      else andThen (andThen (andThen (handleTransition deltaTime c) (speedFOV a))
                            (cameraShake a deltaTime))
                   (cameraPose a))"

text \<open>A run of per-tick camera updates; an exception ends its own tick only.\<close>

fun Camera_updates ::
  "(aircraft \<times> real) list \<Rightarrow> camera_controller \<Rightarrow> camera_controller" where
  "Camera_updates [] c = c"
| "Camera_updates ((a, deltaTime) # ticks) c =
     Camera_updates ticks (fst (Camera_update a deltaTime c))"

section \<open>One frame of the main loop\<close>

text \<open>
  The objects the flying branch of \<open>animate\<close> works on, and its calls in their order:
  \<open>Aircraft.setInput\<close>, \<open>Aircraft.update\<close>, \<open>Camera.update\<close>, \<open>Aircraft.getPosition\<close> and
  \<open>Earth.updateDayNight\<close>. An exception leaves the rest of the frame undone.
\<close>

record world =
  w_aircraft :: aircraft
  w_camera :: camera_controller
  w_earth :: earth

definition frame_Aircraft_update :: "real \<Rightarrow> world \<Rightarrow> world \<times> error option" where
  "frame_Aircraft_update deltaTime w =
     (let (a, e) = Aircraft_update deltaTime (w_aircraft w) in (w\<lparr>w_aircraft := a\<rparr>, e))"

definition frame_Camera_update :: "real \<Rightarrow> world \<Rightarrow> world \<times> error option" where
  "frame_Camera_update deltaTime w =
     (let (c, e) = Camera_update (w_aircraft w) deltaTime (w_camera w) in (w\<lparr>w_camera := c\<rparr>, e))"

definition frame_updateDayNight :: "real \<Rightarrow> string \<Rightarrow> world \<Rightarrow> world \<times> error option" where
  "frame_updateDayNight utcHours dayNightMode w =
     (let position = Aircraft_getPosition (w_aircraft w)
      in (w\<lparr>w_earth := Earth_updateDayNight utcHours position dayNightMode (w_earth w)\<rparr>, None))"

definition animate :: "input_arg \<Rightarrow> real \<Rightarrow> real \<Rightarrow> string \<Rightarrow> world \<Rightarrow> world \<times> error option" where
  "animate i deltaTime utcHours dayNightMode w =
     andThen (andThen (frame_Aircraft_update deltaTime
                         (w\<lparr>w_aircraft := Aircraft_setInput i (w_aircraft w)\<rparr>))
                      (frame_Camera_update deltaTime))
             (frame_updateDayNight utcHours dayNightMode)"

section \<open>The camera pose on a store of vector objects\<close>

text \<open>
  In the source a \<open>THREE.Vector3\<close> is an object, and its methods (\<open>normalize\<close>,
  \<open>multiplyScalar\<close>, \<open>add\<close>, \<open>copy\<close>, \<open>lerp\<close>, \<open>applyQuaternion\<close>, \<open>applyEuler\<close>,
  \<open>crossVectors\<close>) overwrite the object they are called on. Here the pose code of
  \<open>Camera.update\<close> is written once more, over a store of vector objects: a reference is the
  address of an object, \<open>new\<close> and \<open>clone\<close> allocate the next free address, and every
  method writes the cell of its receiver. \<open>gp\<close> is the reference of
  \<open>aircraft.group.position\<close>, \<open>cp\<close> and \<open>cu\<close> are those of \<open>camera.position\<close> and
  \<open>camera.up\<close>; the result is the camera's new quaternion.
\<close>

type_synonym ref = nat

record vstore =
  cells :: "ref \<Rightarrow> vec3"
  next_ref :: ref

definition v_new :: "vec3 \<Rightarrow> (vstore, ref) state" where
  "v_new v =
     State (\<lambda>h. (next_ref h,
                 h\<lparr>cells := (cells h)(next_ref h := v), next_ref := Suc (next_ref h)\<rparr>))"

definition v_read :: "ref \<Rightarrow> (vstore, vec3) state" where
  "v_read r = State (\<lambda>h. (cells h r, h))"

definition v_write :: "ref \<Rightarrow> vec3 \<Rightarrow> (vstore, unit) state" where
  "v_write r v = State (\<lambda>h. ((), h\<lparr>cells := (cells h)(r := v)\<rparr>))"

definition v_clone :: "ref \<Rightarrow> (vstore, ref) state" where
  "v_clone r = do { v \<leftarrow> v_read r; v_new v }"

definition v_normalize :: "ref \<Rightarrow> (vstore, unit) state" where
  "v_normalize r = do { v \<leftarrow> v_read r; v_write r (normalize v) }"

definition v_multiplyScalar :: "ref \<Rightarrow> real \<Rightarrow> (vstore, unit) state" where
  "v_multiplyScalar r k = do { v \<leftarrow> v_read r; v_write r (multiplyScalar v k) }"

definition v_add :: "ref \<Rightarrow> ref \<Rightarrow> (vstore, unit) state" where
  "v_add r a = do { v \<leftarrow> v_read r; w \<leftarrow> v_read a; v_write r (vadd v w) }"

definition v_copy :: "ref \<Rightarrow> ref \<Rightarrow> (vstore, unit) state" where
  "v_copy r a = do { w \<leftarrow> v_read a; v_write r w }"

definition v_lerp :: "ref \<Rightarrow> ref \<Rightarrow> real \<Rightarrow> (vstore, unit) state" where
  "v_lerp r a t = do { v \<leftarrow> v_read r; w \<leftarrow> v_read a; v_write r (vlerp v w t) }"

definition v_applyQuaternion :: "ref \<Rightarrow> rot3 \<Rightarrow> (vstore, unit) state" where
  "v_applyQuaternion r q = do { v \<leftarrow> v_read r; v_write r (applyRotation q v) }"

definition v_crossVectors :: "ref \<Rightarrow> ref \<Rightarrow> ref \<Rightarrow> (vstore, unit) state" where
  "v_crossVectors r a b = do { v \<leftarrow> v_read a; w \<leftarrow> v_read b; v_write r (crossVectors v w) }"

definition v_lookAt :: "ref \<Rightarrow> ref \<Rightarrow> ref \<Rightarrow> (vstore, rot3) state" where
  "v_lookAt eye target up = do { e \<leftarrow> v_read eye; t \<leftarrow> v_read target; u \<leftarrow> v_read up;
                                State_Monad.return (lookAt e t u) }"

definition v_applyEuler :: "ref \<Rightarrow> rot3 \<Rightarrow> (vstore, unit) state" where
  "v_applyEuler r e = do { v \<leftarrow> v_read r; v_write r (applyEuler v e) }"

text \<open>
  The cockpit branch. \<open>aircraft.mesh.rotation\<close> is read when \<open>forward.applyEuler\<close> is
  called: without a mesh the branch throws there, with the camera position already set.
\<close>

definition store_poseCockpit ::
  "ref \<Rightarrow> rot3 \<Rightarrow> mesh3d option \<Rightarrow> ref \<Rightarrow> ref \<Rightarrow> (vstore, error + rot3) state" where
  "store_poseCockpit gp q mo cp cu = do {
     aircraftPos \<leftarrow> v_clone gp;
     up \<leftarrow> v_clone aircraftPos;
     v_normalize up;
     cockpitOffset \<leftarrow> v_new (Vector3 0.5 0.2 0);
     v_applyQuaternion cockpitOffset q;
     v_copy cp aircraftPos;
     v_add cp cockpitOffset;
     fwd \<leftarrow> v_new (Vector3 1 0 0);
     v_applyQuaternion fwd q;
     (case mo of
        None \<Rightarrow> State_Monad.return (Inl TypeError)
      | Some m \<Rightarrow> do {
          v_applyEuler fwd (mesh_rotation m);
          lookAtPos \<leftarrow> v_clone cp;
          v_multiplyScalar fwd 10;
          v_add lookAtPos fwd;
          quaternion \<leftarrow> v_lookAt cp lookAtPos cu;
          v_copy cu up;
          State_Monad.return (Inr quaternion)
        })
   }"

text \<open>The third-person branch; \<open>backOffset\<close> is the object \<open>backward\<close> itself.\<close>

definition store_poseThirdPerson ::
  "ref \<Rightarrow> rot3 \<Rightarrow> view_params \<Rightarrow> camera_shake \<Rightarrow> ref \<Rightarrow> ref \<Rightarrow> (vstore, rot3) state" where
  "store_poseThirdPerson gp q st sh cp cu = do {
     aircraftPos \<leftarrow> v_clone gp;
     up \<leftarrow> v_clone aircraftPos;
     v_normalize up;
     backward \<leftarrow> v_new (Vector3 (- 1) 0 0);
     v_applyQuaternion backward q;
     upOffset \<leftarrow> v_clone up;
     v_multiplyScalar upOffset (height st);
     v_multiplyScalar backward (distance st);
     targetPos \<leftarrow> v_clone aircraftPos;
     v_add targetPos upOffset;
     v_add targetPos backward;
     v_lerp cp targetPos 0.03;
     (if intensity sh > 0.001
      then do {
        upShake \<leftarrow> v_clone up;
        v_multiplyScalar upShake (cos (shake_time sh * 1.3) * intensity sh);
        v_add cp upShake;
        right \<leftarrow> v_new (Vector3 0 0 0);
        v_crossVectors right up backward;
        v_normalize right;
        v_multiplyScalar right (sin (shake_time sh) * intensity sh);
        v_add cp right
      }
      else State_Monad.return ());
     quaternion \<leftarrow> v_lookAt cp aircraftPos cu;
     v_copy cu up;
     State_Monad.return quaternion
   }"

text \<open>The overhead branch.\<close>

definition store_poseOverhead ::
  "ref \<Rightarrow> rot3 \<Rightarrow> view_params \<Rightarrow> ref \<Rightarrow> ref \<Rightarrow> (vstore, rot3) state" where
  "store_poseOverhead gp q st cp cu = do {
     aircraftPos \<leftarrow> v_clone gp;
     up \<leftarrow> v_clone aircraftPos;
     v_normalize up;
     upOffset \<leftarrow> v_clone up;
     v_multiplyScalar upOffset (height st);
     backOffset \<leftarrow> v_new (Vector3 (- 1) 0 0);
     v_applyQuaternion backOffset q;
     v_multiplyScalar backOffset (distance st * 0.5);
     targetPos \<leftarrow> v_clone aircraftPos;
     v_add targetPos upOffset;
     v_add targetPos backOffset;
     v_lerp cp targetPos 0.03;
     quaternion \<leftarrow> v_lookAt cp aircraftPos cu;
     v_copy cu up;
     State_Monad.return quaternion
   }"

section \<open>Auxiliary notions and concrete objects for the scenarios\<close>

text \<open>The operand of the remainder in \<open>(heading + 360) % 360\<close> of \<open>Aircraft.update\<close>.\<close>

definition heading_sum :: "aircraft_spec \<Rightarrow> control_input \<Rightarrow> real \<Rightarrow> aircraft_state \<Rightarrow> real" where
  "heading_sum spec i dt s =
     heading s + in_yaw i * spec_handling spec * 30 * dt
       + (roll s + in_roll i * spec_handling spec * 60 * dt) * 0.5 * dt + 360"

definition airport0 :: airport where
  "airport0 = \<lparr>ap_ident = ''ORIGIN'', ap_lat = 0, ap_lon = 0\<rparr>"

text \<open>A Cessna after \<open>Aircraft.init(scene)\<close> and \<open>Aircraft.takeoff\<close> at latitude 0, longitude 0.\<close>

definition cessna_at_origin :: aircraft where
  "cessna_at_origin =
     fst (Aircraft_takeoff 0 airport0 (aircraft_of (Aircraft_init ''cessna'' Aircraft)))"

definition yaw_left :: input_arg where
  "yaw_left = \<lparr>arg_pitch = None, arg_roll = None, arg_yaw = Some (- 1), arg_throttle = None\<rparr>"

text \<open>An aircraft whose group exists and whose type has not been chosen yet.\<close>

definition untyped_aircraft :: aircraft where
  "untyped_aircraft =
     Aircraft\<lparr>group := Some \<lparr>g_position = Vector3 0 0 0, g_quaternion = identity_rotation\<rparr>\<rparr>"

text \<open>The rendering camera as the main program creates it, and the controller after \<open>Camera.init\<close>.\<close>

definition scene_camera :: three_camera where
  "scene_camera = \<lparr>c_fov = 60, c_position = Vector3 200 100 200, c_up = Vector3 0 1 0,
                    c_quaternion = identity_rotation\<rparr>"

definition camera_ready :: camera_controller where
  "camera_ready = fst (Camera_init scene_camera Camera)"

text \<open>
  The running sum of a transition's progress over ticks of the given durations, as
  \<open>Camera.update\<close> accumulates it while it stays below 1, and whether it gets to 1.
\<close>

fun progress_after :: "real \<Rightarrow> real \<Rightarrow> real list \<Rightarrow> real" where
  "progress_after p d [] = p"
| "progress_after p d (dt # dts) = progress_after (to_double (p + to_double (dt / d))) d dts"

fun reaches_one :: "real \<Rightarrow> real \<Rightarrow> real list \<Rightarrow> bool" where
  "reaches_one p d [] = False"
| "reaches_one p d (dt # dts) =
     (1 \<le> to_double (p + to_double (dt / d))
      \<or> reaches_one (to_double (p + to_double (dt / d))) d dts)"

text \<open>No quotient and no partial sum of the running sum is changed by the rounding.\<close>

fun exact_sums :: "real \<Rightarrow> real \<Rightarrow> real list \<Rightarrow> bool" where
  "exact_sums p d [] = True"
| "exact_sums p d (dt # dts) =
     (to_double (dt / d) = dt / d \<and> to_double (p + dt / d) = p + dt / d
      \<and> exact_sums (p + dt / d) d dts)"

text \<open>Ticks, each with the aircraft it finds, all of them in active flight.\<close>

definition flying_ticks :: "(aircraft \<times> real) list \<Rightarrow> bool" where
  "flying_ticks ticks = list_all (\<lambda>(a, dt). isFlying (state a) \<and> group a \<noteq> None) ticks"

text \<open>The controller after \<open>Camera.setView('cockpit', true)\<close>, and two ticks of a quarter second.\<close>

definition cockpit_transition :: camera_controller where
  "cockpit_transition = fst (Camera_setView ''cockpit'' True camera_ready)"

definition two_ticks :: "(aircraft \<times> real) list" where
  "two_ticks = [(cessna_at_origin, 1 / 4), (cessna_at_origin, 1 / 4)]"

text \<open>
  The doubles nearest to 0.05, 0.1 and 0.15, and five ticks of 0.05, 0.15, 0.15, 0.1 and
  0.05 seconds.
\<close>

definition double_0_05 :: real where
  "double_0_05 = 3602879701896397 / 72057594037927936"

definition double_0_1 :: real where
  "double_0_1 = 3602879701896397 / 36028797018963968"

definition double_0_15 :: real where
  "double_0_15 = 5404319552844595 / 36028797018963968"

definition five_ticks :: "(aircraft \<times> real) list" where
  "five_ticks =
     [(cessna_at_origin, double_0_05), (cessna_at_origin, double_0_15),
      (cessna_at_origin, double_0_15), (cessna_at_origin, double_0_1),
      (cessna_at_origin, double_0_05)]"

text \<open>An aircraft on which \<open>setType('jet')\<close> ran before \<open>init\<close>: a type, and no group.\<close>

definition jet_without_group :: aircraft where
  "jet_without_group = aircraft_of (Aircraft_setType ''jet'' Aircraft)"

text \<open>A position on the prime meridian, and an Earth whose night layer is fully opaque.\<close>

definition origin_position :: latlon where
  "origin_position = \<lparr>lat = 0, lon = 0, geo_altitude = 2\<rparr>"

definition earth_at_night :: earth where
  "earth_at_night = \<lparr>nightLights = Some 1\<rparr>"

text \<open>
  A program on the store keeps the objects below address \<open>n\<close> that are not in \<open>W\<close>: started
  with at least \<open>n\<close> objects allocated, it leaves each such cell as it was, and its result
  satisfies \<open>Q\<close>.
\<close>

definition keeps :: "ref \<Rightarrow> ref set \<Rightarrow> ('a \<Rightarrow> bool) \<Rightarrow> (vstore, 'a) state \<Rightarrow> bool" where
  "keeps n W Q m =
     (\<forall>h. n \<le> next_ref h \<longrightarrow>
        n \<le> next_ref (snd (run_state m h))
        \<and> (\<forall>r<n. r \<notin> W \<longrightarrow> cells (snd (run_state m h)) r = cells h r)
        \<and> Q (fst (run_state m h)))"

text \<open>
  The vector objects of the scenario: \<open>group.position\<close> (0), \<open>state.position\<close> (1),
  \<open>state.velocity\<close> (2), \<open>camera.position\<close> (3) and \<open>camera.up\<close> (4).
\<close>

definition scene_store :: vstore where
  "scene_store =
     \<lparr>cells = (\<lambda>_. Vector3 0 0 0)(0 := Vector3 102 0 0, 1 := Vector3 102 0 0,
                                      3 := Vector3 200 100 200, 4 := Vector3 0 1 0),
      next_ref = 5\<rparr>"

section \<open>Arithmetic of the library functions\<close>

lemma js_rem_nonneg: "0 \<le> a \<Longrightarrow> 0 < b \<Longrightarrow> 0 \<le> js_rem a b \<and> js_rem a b < b"
proof -
  assume a: "0 \<le> a" and b: "0 < b"
  have f1: "of_int \<lfloor>a / b\<rfloor> \<le> a / b" by simp
  have f2: "a / b < of_int \<lfloor>a / b\<rfloor> + 1" by linarith
  from f1 b have "of_int \<lfloor>a / b\<rfloor> * b \<le> a" by (simp add: le_divide_eq)
  moreover have "a / b * b < (of_int \<lfloor>a / b\<rfloor> + 1) * b"
    using f2 b by (rule mult_strict_right_mono)
  then have "a < (of_int \<lfloor>a / b\<rfloor> + 1) * b" using b by simp
  ultimately show ?thesis using a b
    by (cases "a = 0") (simp_all add: js_rem_def algebra_simps)
qed

lemma js_rem_neg: "a < 0 \<Longrightarrow> 0 < b \<Longrightarrow> - b < js_rem a b \<and> js_rem a b \<le> 0"
proof -
  assume a: "a < 0" and b: "0 < b"
  have "js_rem a b = - js_rem (- a) b" using a by (simp add: js_rem_def)
  moreover have "0 \<le> js_rem (- a) b \<and> js_rem (- a) b < b"
    using a b by (intro js_rem_nonneg) simp_all
  ultimately show ?thesis by simp
qed

lemma clamp_bounds: "lo \<le> hi \<Longrightarrow> lo \<le> clamp v lo hi \<and> clamp v lo hi \<le> hi"
  by (simp add: clamp_def)

section \<open>Aircraft: what one update guarantees\<close>

lemma applyControls_pitch:
  "- 80 \<le> pitch (applyControls spec i dt s) \<and> pitch (applyControls spec i dt s) \<le> 80"
proof -
  define c where "c = clamp (pitch s + in_pitch i * spec_handling spec * 60 * dt) (- 80) 80"
  have eq: "pitch (applyControls spec i dt s) = (if in_pitch i = 0 then c * 0.98 else c)"
    by (simp add: applyControls_def Let_def c_def)
  have "- 80 \<le> c \<and> c \<le> 80" unfolding c_def by (rule clamp_bounds) simp
  then show ?thesis by (simp add: eq)
qed

lemma applyControls_roll:
  "- 60 \<le> roll (applyControls spec i dt s) \<and> roll (applyControls spec i dt s) \<le> 60"
proof -
  define c where "c = clamp (roll s + in_roll i * spec_handling spec * 60 * dt) (- 60) 60"
  have eq: "roll (applyControls spec i dt s) = (if in_roll i = 0 then c * 0.98 else c)"
    by (simp add: applyControls_def Let_def c_def)
  have "- 60 \<le> c \<and> c \<le> 60" unfolding c_def by (rule clamp_bounds) simp
  then show ?thesis by (simp add: eq)
qed

lemma applyControls_speed:
  "spec_minSpeed spec \<le> spec_maxSpeed spec \<Longrightarrow>
   spec_minSpeed spec \<le> speed (applyControls spec i dt s) \<and>
   speed (applyControls spec i dt s) \<le> spec_maxSpeed spec"
  by (simp add: applyControls_def Let_def clamp_def max_def min_def)

text \<open>
  What the remainder guarantees for the heading: a value strictly between -360 and 360,
  which is non-negative when the sum it is taken of is.
\<close>

lemma applyControls_heading: "heading (applyControls spec i dt s) = js_rem (heading_sum spec i dt s) 360"
  by (simp add: applyControls_def Let_def heading_sum_def)

lemma applyControls_heading_bounds:
  "- 360 < heading (applyControls spec i dt s) \<and> heading (applyControls spec i dt s) < 360"
proof (cases "0 \<le> heading_sum spec i dt s")
  case True
  then show ?thesis
    using js_rem_nonneg [of "heading_sum spec i dt s" 360] by (simp add: applyControls_heading)
next
  case False
  then show ?thesis
    using js_rem_neg [of "heading_sum spec i dt s" 360] by (simp add: applyControls_heading)
qed

lemma applyControls_heading_nonneg:
  "0 \<le> heading_sum spec i dt s \<Longrightarrow> 0 \<le> heading (applyControls spec i dt s)"
  using js_rem_nonneg [of "heading_sum spec i dt s" 360] by (simp add: applyControls_heading)

lemma moveAircraft_frame:
  "pitch (moveAircraft dt s) = pitch s" "roll (moveAircraft dt s) = roll s"
  "heading (moveAircraft dt s) = heading s" "speed (moveAircraft dt s) = speed s"
  by (simp_all add: moveAircraft_def Let_def)

lemma keepAboveSurface_frame:
  "pitch (keepAboveSurface s) = pitch s" "roll (keepAboveSurface s) = roll s"
  "heading (keepAboveSurface s) = heading s" "speed (keepAboveSurface s) = speed s"
  by (simp_all add: keepAboveSurface_def Let_def)

lemma keepAboveSurface_altitude:
  "0.5 \<le> altitude (keepAboveSurface s) \<and> altitude (keepAboveSurface s) \<le> 50"
  by (simp add: keepAboveSurface_def Let_def sceneRadius_def)

lemma Aircraft_update_state:
  "mesh a = Some m \<Longrightarrow> isFlying (state a) \<Longrightarrow> currentType a = Some spec \<Longrightarrow>
   state (fst (Aircraft_update dt a)) =
     keepAboveSurface (moveAircraft dt (applyControls spec (input a) dt (state a)))"
  by (simp add: Aircraft_update_def Let_def split: option.splits prod.splits)

text \<open>
  Every bound of the state except the sign of the heading holds after any update of a
  flying aircraft, whatever the tick duration.
\<close>

lemma Aircraft_update_bounds:
  fixes dt :: real
  assumes "mesh a = Some m" and "isFlying (state a)" and "currentType a = Some spec"
    and "spec_minSpeed spec \<le> spec_maxSpeed spec"
  defines "s' \<equiv> state (fst (Aircraft_update dt a))"
  shows "- 80 \<le> pitch s' \<and> pitch s' \<le> 80" and "- 60 \<le> roll s' \<and> roll s' \<le> 60"
    and "spec_minSpeed spec \<le> speed s' \<and> speed s' \<le> spec_maxSpeed spec"
    and "0.5 \<le> altitude s' \<and> altitude s' \<le> 50"
    and "- 360 < heading s' \<and> heading s' < 360"
    and "0 \<le> heading_sum spec (input a) dt (state a) \<Longrightarrow> 0 \<le> heading s'"
proof -
  have eq: "s' = keepAboveSurface (moveAircraft dt (applyControls spec (input a) dt (state a)))"
    unfolding s'_def using assms(1-3) by (rule Aircraft_update_state)
  show "- 80 \<le> pitch s' \<and> pitch s' \<le> 80"
    by (simp only: eq keepAboveSurface_frame moveAircraft_frame applyControls_pitch)
  show "- 60 \<le> roll s' \<and> roll s' \<le> 60"
    by (simp only: eq keepAboveSurface_frame moveAircraft_frame applyControls_roll)
  show "spec_minSpeed spec \<le> speed s' \<and> speed s' \<le> spec_maxSpeed spec"
    using assms(4) by (simp only: eq keepAboveSurface_frame moveAircraft_frame applyControls_speed)
  show "0.5 \<le> altitude s' \<and> altitude s' \<le> 50"
    by (simp only: eq keepAboveSurface_altitude)
  show "- 360 < heading s' \<and> heading s' < 360"
    by (simp only: eq keepAboveSurface_frame moveAircraft_frame applyControls_heading_bounds)
  show "0 \<le> heading_sum spec (input a) dt (state a) \<Longrightarrow> 0 \<le> heading s'"
    by (simp only: eq keepAboveSurface_frame moveAircraft_frame applyControls_heading_nonneg)
qed

lemma latLon_origin: "Earth_latLonToVector3 0 0 2 = Vector3 102 0 0"
  by (simp add: Earth_latLonToVector3_def sceneRadius_def Let_def)

lemma cessna_at_origin_eq:
  "cessna_at_origin =
     \<lparr>mesh = Some (createAircraftMesh ''cessna'' cessna),
      group = Some \<lparr>g_position = Vector3 102 0 0, g_quaternion = identity_rotation\<rparr>,
      currentType = Some cessna,
      state = \<lparr>position = Vector3 102 0 0, velocity = Vector3 0 0 0, speed = 300, altitude = 2,
               heading = 0, pitch = 0, roll = 0, isFlying = True, takeoffAirport = Some airport0,
               destinationAirport = None, flightStartTime = Some 0\<rparr>,
      input = \<lparr>in_pitch = 0, in_roll = 0, in_yaw = 0, in_throttle = 0\<rparr>,
      getFlightPhase = None\<rparr>"
  by (simp add: cessna_at_origin_def Aircraft_takeoff_def Aircraft_init_def Aircraft_setType_def
      setType_body_def Aircraft_def types_def Let_def latLon_origin airport0_def cessna_def)

text \<open>
  C2. After each update the state is meant to satisfy pitch in [-80, 80], roll in [-60, 60],
  heading in [0, 360), speed within the type's limits and altitude within its limits, also
  under a large tick. The heading does not: a Cessna that has just taken off, with full left
  yaw and a tick of 20 seconds, ends the update with heading -240, because the remainder of
  a negative sum is negative. (The other bounds hold: \<open>Aircraft_update_bounds\<close>.)
\<close>

theorem Aircraft_update_heading_negative:
  "heading (state (fst (Aircraft_update 20 (Aircraft_setInput yaw_left cessna_at_origin)))) = - 240"
  by (simp add: cessna_at_origin_eq Aircraft_setInput_def yaw_left_def clamp_def Aircraft_update_def
      createAircraftMesh_def cessna_def Let_def applyControls_def moveAircraft_def
      keepAboveSurface_def orientAircraft_def js_rem_def split: prod.splits)

text \<open>
  C10. When the aircraft is not flying, or has no mesh yet, \<open>Aircraft.update\<close> returns at
  once: the whole aircraft object is the one it was given, and nothing is thrown.
\<close>

theorem Aircraft_update_noop:
  "\<not> isFlying (state a) \<or> mesh a = None \<Longrightarrow> Aircraft_update deltaTime a = (a, None)"
  by (auto simp: Aircraft_update_def split: option.splits)

theorem Aircraft_update_noop_witness:
  "\<not> isFlying (state (aircraft_of (Aircraft_init ''jet'' Aircraft)))
   \<and> mesh (aircraft_of (Aircraft_init ''jet'' Aircraft)) \<noteq> None
   \<and> Aircraft_update 5 (aircraft_of (Aircraft_init ''jet'' Aircraft))
       = (aircraft_of (Aircraft_init ''jet'' Aircraft), None)"
proof -
  have h: "\<not> isFlying (state (aircraft_of (Aircraft_init ''jet'' Aircraft)))"
    by (simp add: Aircraft_init_def Aircraft_setType_def setType_body_def Aircraft_def types_def
        Let_def)
  have m: "mesh (aircraft_of (Aircraft_init ''jet'' Aircraft)) \<noteq> None"
    by (simp add: Aircraft_init_def Aircraft_setType_def setType_body_def Aircraft_def types_def
        Let_def)
  from h m show ?thesis
    using Aircraft_update_noop [of "aircraft_of (Aircraft_init ''jet'' Aircraft)" 5] by blast
qed

section \<open>Aircraft: one second of level flight\<close>

lemma vlength_x: "vlength (Vector3 x 0 0) = \<bar>x\<bar>"
  by (simp add: vlength_def Vector3_def)

lemma forward_level:
  "pitch s = 0 \<Longrightarrow> heading s = 0 \<Longrightarrow> roll s = 0 \<Longrightarrow> forward s = Vector3 1 0 0"
  by (simp add: forward_def degToRad_def Euler_YXZ_def applyEuler_def applyRotation_def
      multiplyScalar_def vadd_def Vector3_def)

lemma scenario_A_state:
  "state (fst (Aircraft_update 1 cessna_at_origin)) =
     keepAboveSurface
       (moveAircraft 1 (applyControls cessna (input cessna_at_origin) 1 (state cessna_at_origin)))"
  by (rule Aircraft_update_state) (simp_all add: cessna_at_origin_eq)

lemma scenario_A_controls:
  "applyControls cessna (input cessna_at_origin) 1 (state cessna_at_origin) = state cessna_at_origin"
  by (simp add: cessna_at_origin_eq applyControls_def Let_def clamp_def cessna_def js_rem_def)

lemma scenario_A_forward: "forward (state cessna_at_origin) = Vector3 1 0 0"
  by (rule forward_level) (simp_all add: cessna_at_origin_eq)

lemma scenario_A_move:
  "moveAircraft 1 (state cessna_at_origin) =
     (state cessna_at_origin)\<lparr>velocity := Vector3 (1 / 1200) 0 0,
                               position := Vector3 (102 + 1 / 1200) 0 0\<rparr>"
  by (simp add: moveAircraft_def Let_def scenario_A_forward)
     (simp add: cessna_at_origin_eq multiplyScalar_def vadd_def Vector3_def)

lemma scenario_A_keep:
  "keepAboveSurface
     ((state cessna_at_origin)\<lparr>velocity := Vector3 (1 / 1200) 0 0,
                                position := Vector3 (102 + 1 / 1200) 0 0\<rparr>)
   = (state cessna_at_origin)\<lparr>velocity := Vector3 (1 / 1200) 0 0,
                               position := Vector3 (102 + 1 / 1200) 0 0,
                               altitude := 2 + 1 / 1200\<rparr>"
  by (simp add: keepAboveSurface_def Let_def vlength_x sceneRadius_def)

lemma scenario_A_result:
  "state (fst (Aircraft_update 1 cessna_at_origin)) =
     (state cessna_at_origin)\<lparr>velocity := Vector3 (1 / 1200) 0 0,
                               position := Vector3 (102 + 1 / 1200) 0 0,
                               altitude := 2 + 1 / 1200\<rparr>"
  by (simp only: scenario_A_state scenario_A_controls scenario_A_move scenario_A_keep)

text \<open>
  C7 (Scenario A). A Cessna at latitude 0, longitude 0, altitude 2, heading, pitch and roll 0,
  speed 300 km/h, no control input, one update of one second: the update throws nothing, the
  forward vector is the unit x axis, the new position is the old one plus forward times
  300 / 3600 * 1 * 0.01, and the new altitude, 2 + 1/1200, lies between 0.5 and 50.
\<close>

theorem scenario_A:
  "snd (Aircraft_update 1 cessna_at_origin) = None
   \<and> forward (state cessna_at_origin) = Vector3 1 0 0
   \<and> position (state (fst (Aircraft_update 1 cessna_at_origin)))
       = vadd (position (state cessna_at_origin))
              (multiplyScalar (forward (state cessna_at_origin)) (300 / 3600 * 1 * 0.01))
   \<and> altitude (state (fst (Aircraft_update 1 cessna_at_origin))) = 2 + 1 / 1200
   \<and> 0.5 \<le> altitude (state (fst (Aircraft_update 1 cessna_at_origin)))
   \<and> altitude (state (fst (Aircraft_update 1 cessna_at_origin))) \<le> 50"
proof -
  have e: "snd (Aircraft_update 1 cessna_at_origin) = None"
    by (simp add: Aircraft_update_def cessna_at_origin_eq Let_def split: prod.splits)
  have p: "vadd (position (state cessna_at_origin))
             (multiplyScalar (Vector3 1 0 0) (300 / 3600 * 1 * 0.01))
           = Vector3 (102 + 1 / 1200) 0 0"
    by (simp add: cessna_at_origin_eq multiplyScalar_def vadd_def Vector3_def)
  show ?thesis
    unfolding scenario_A_result scenario_A_forward p e by simp
qed

section \<open>Aircraft: choosing a type and taking off\<close>

lemma types_None:
  "(types t = None)
     = (t \<noteq> ''cessna'' \<and> t \<noteq> ''airliner'' \<and> t \<noteq> ''jet'' \<and> t \<notin> set Object_prototype_names)"
  by (simp add: types_def)

lemma types_Inherited:
  "t \<in> set Object_prototype_names \<Longrightarrow> types t = Some Inherited"
  by (auto simp add: types_def Object_prototype_names_def)

lemma setType_body_result:
  "currentType (fst (setType_body t spec a)) = Some spec"
  "speed (state (fst (setType_body t spec a))) = spec_speed spec"
  "group (fst (setType_body t spec a)) = group a"
  "getFlightPhase (fst (setType_body t spec a)) = getFlightPhase a"
  "snd (setType_body t spec a) = (if group a = None then Some TypeError else None)"
  by (simp_all add: setType_body_def Let_def)

lemma setType_unknown:
  "types t = None \<Longrightarrow>
   Aircraft_setType t a =
     Done (fst (setType_body ''cessna'' cessna a))
          (if group a = None then Some TypeError else None) True"
  by (simp add: Aircraft_setType_def Let_def case_prod_beta setType_body_result)

lemma setType_known:
  "types t = Some (Spec spec) \<Longrightarrow>
   Aircraft_setType t a =
     Done (fst (setType_body t spec a))
          (if group a = None then Some TypeError else None) False"
  by (simp add: Aircraft_setType_def Let_def case_prod_beta setType_body_result)

lemma takeoff_typed:
  "currentType a = Some spec \<Longrightarrow> group a \<noteq> None \<Longrightarrow>
   snd (Aircraft_takeoff now ap a) = None
   \<and> isFlying (state (fst (Aircraft_takeoff now ap a)))
   \<and> speed (state (fst (Aircraft_takeoff now ap a))) = spec_speed spec"
  by (auto simp add: Aircraft_takeoff_def Let_def)

lemma takeoff_untyped:
  "currentType a = None \<Longrightarrow>
   snd (Aircraft_takeoff now ap a) = Some TypeError
   \<and> isFlying (state (fst (Aircraft_takeoff now ap a))) = isFlying (state a)"
  by (simp add: Aircraft_takeoff_def Let_def)

lemma takeoff_without_group:
  "currentType a \<noteq> None \<Longrightarrow> group a = None \<Longrightarrow>
   snd (Aircraft_takeoff now ap a) = Some TypeError
   \<and> isFlying (state (fst (Aircraft_takeoff now ap a)))"
  by (auto simp add: Aircraft_takeoff_def Let_def)

lemma takeoff_succeeds_iff:
  "(snd (Aircraft_takeoff now ap a) = None) = (currentType a \<noteq> None \<and> group a \<noteq> None)"
  by (auto simp add: Aircraft_takeoff_def Let_def split: option.splits)

text \<open>
  C4, as the claim states it: choosing a type outside cessna, airliner and jet before takeoff
  would be reported to the caller as a failure. It is not: \<open>setType('helicopter')\<close> on an
  initialised aircraft warns on the console and throws nothing, the current type is the
  Cessna afterwards, and the takeoff that follows succeeds and starts the flight.
\<close>

theorem setType_unknown_is_not_reported:
  "Aircraft_setType ''helicopter'' untyped_aircraft \<noteq> NotASpec
   \<and> thrown (Aircraft_setType ''helicopter'' untyped_aircraft) = None
   \<and> warned (Aircraft_setType ''helicopter'' untyped_aircraft)
   \<and> currentType (aircraft_of (Aircraft_setType ''helicopter'' untyped_aircraft)) = Some cessna
   \<and> snd (Aircraft_takeoff 0 airport0
            (aircraft_of (Aircraft_setType ''helicopter'' untyped_aircraft))) = None
   \<and> isFlying (state (fst (Aircraft_takeoff 0 airport0
                             (aircraft_of (Aircraft_setType ''helicopter'' untyped_aircraft)))))"
  by (simp add: Aircraft_setType_def setType_body_def untyped_aircraft_def Aircraft_def types_def
      Object_prototype_names_def Aircraft_takeoff_def Let_def)

text \<open>
  C4, amended. For a type name \<open>t\<close>, an aircraft \<open>a\<close> (its current type null or one of the
  three specifications) and an airport:

  \<^item> \<open>Aircraft.types\<close> has no entry for \<open>t\<close> exactly when \<open>t\<close> is none of cessna, airliner
    and jet and no property name of \<open>Object.prototype\<close>;
  \<^item> for such a name \<open>Aircraft.setType\<close> warns on the console and substitutes the Cessna
    (speed 300); it throws, after that, exactly when the aircraft has no group; and if the
    aircraft has a group, a takeoff after it throws nothing and starts the flight at
    speed 300;
  \<^item> for a property name of \<open>Object.prototype\<close>, such as \<open>constructor\<close>, it neither warns
    nor substitutes: the current type becomes an object that is no specification;
  \<^item> for cessna, airliner and jet it does not warn and selects that specification;
  \<^item> \<open>Aircraft.takeoff\<close> throws nothing exactly when a type is selected and the group exists;
    with no type selected it throws a TypeError and leaves the flight-active flag as it
    was; with a type and no group it throws a TypeError after setting the flag.
\<close>

theorem setType_substitutes_cessna_takeoff_needs_type_and_group:
  "(types t = None)
     = (t \<noteq> ''cessna'' \<and> t \<noteq> ''airliner'' \<and> t \<noteq> ''jet'' \<and> t \<notin> set Object_prototype_names)
   \<and> (types t = None \<longrightarrow>
      (\<exists>a'. Aircraft_setType t a = Done a' (if group a = None then Some TypeError else None) True
            \<and> currentType a' = Some cessna
            \<and> speed (state a') = 300
            \<and> (group a \<noteq> None \<longrightarrow>
                 snd (Aircraft_takeoff now ap a') = None
                 \<and> isFlying (state (fst (Aircraft_takeoff now ap a')))
                 \<and> speed (state (fst (Aircraft_takeoff now ap a'))) = 300)))
   \<and> (t \<in> set Object_prototype_names \<longrightarrow> Aircraft_setType t a = NotASpec)
   \<and> (types t = Some (Spec spec) \<longrightarrow>
      (\<exists>a'. Aircraft_setType t a = Done a' (if group a = None then Some TypeError else None) False
            \<and> currentType a' = Some spec))
   \<and> (snd (Aircraft_takeoff now ap a) = None) = (currentType a \<noteq> None \<and> group a \<noteq> None)
   \<and> (currentType a = None \<longrightarrow>
      snd (Aircraft_takeoff now ap a) = Some TypeError
      \<and> isFlying (state (fst (Aircraft_takeoff now ap a))) = isFlying (state a))
   \<and> (currentType a \<noteq> None \<and> group a = None \<longrightarrow>
      snd (Aircraft_takeoff now ap a) = Some TypeError
      \<and> isFlying (state (fst (Aircraft_takeoff now ap a))))"
proof (intro conjI impI)
  show "(types t = None)
     = (t \<noteq> ''cessna'' \<and> t \<noteq> ''airliner'' \<and> t \<noteq> ''jet'' \<and> t \<notin> set Object_prototype_names)"
    by (rule types_None)
next
  assume h: "types t = None"
  define a' where "a' = fst (setType_body ''cessna'' cessna a)"
  have st: "Aircraft_setType t a = Done a' (if group a = None then Some TypeError else None) True"
    using h by (simp add: setType_unknown a'_def)
  have ty: "currentType a' = Some cessna" and sp: "speed (state a') = 300"
    and gr: "group a' = group a"
    by (simp_all add: a'_def setType_body_result cessna_def)
  have "group a \<noteq> None \<longrightarrow>
          snd (Aircraft_takeoff now ap a') = None
          \<and> isFlying (state (fst (Aircraft_takeoff now ap a')))
          \<and> speed (state (fst (Aircraft_takeoff now ap a'))) = 300"
    using takeoff_typed [of a' cessna now ap] ty gr by (simp add: cessna_def)
  with st ty sp
  show "\<exists>a'. Aircraft_setType t a = Done a' (if group a = None then Some TypeError else None) True
            \<and> currentType a' = Some cessna
            \<and> speed (state a') = 300
            \<and> (group a \<noteq> None \<longrightarrow>
                 snd (Aircraft_takeoff now ap a') = None
                 \<and> isFlying (state (fst (Aircraft_takeoff now ap a')))
                 \<and> speed (state (fst (Aircraft_takeoff now ap a'))) = 300)"
    by blast
next
  assume "t \<in> set Object_prototype_names"
  then show "Aircraft_setType t a = NotASpec"
    by (simp add: Aircraft_setType_def types_Inherited)
next
  assume "types t = Some (Spec spec)"
  then show "\<exists>a'. Aircraft_setType t a
                     = Done a' (if group a = None then Some TypeError else None) False
                   \<and> currentType a' = Some spec"
    by (simp add: setType_known setType_body_result)
next
  show "(snd (Aircraft_takeoff now ap a) = None) = (currentType a \<noteq> None \<and> group a \<noteq> None)"
    by (rule takeoff_succeeds_iff)
next
  assume "currentType a = None"
  then show "snd (Aircraft_takeoff now ap a) = Some TypeError"
    and "isFlying (state (fst (Aircraft_takeoff now ap a))) = isFlying (state a)"
    by (simp_all add: takeoff_untyped)
next
  assume "currentType a \<noteq> None \<and> group a = None"
  then show "snd (Aircraft_takeoff now ap a) = Some TypeError"
    and "isFlying (state (fst (Aircraft_takeoff now ap a)))"
    by (simp_all add: takeoff_without_group)
qed

theorem setType_substitutes_cessna_takeoff_needs_type_and_group_witness:
  "types ''zeppelin'' = None
   \<and> group untyped_aircraft \<noteq> None
   \<and> currentType untyped_aircraft = None
   \<and> \<not> isFlying (state untyped_aircraft)
   \<and> warned (Aircraft_setType ''zeppelin'' untyped_aircraft)
   \<and> thrown (Aircraft_setType ''zeppelin'' untyped_aircraft) = None
   \<and> currentType (aircraft_of (Aircraft_setType ''zeppelin'' untyped_aircraft)) = Some cessna
   \<and> speed (state (fst (Aircraft_takeoff 7 airport0
                          (aircraft_of (Aircraft_setType ''zeppelin'' untyped_aircraft))))) = 300
   \<and> snd (Aircraft_takeoff 7 airport0 untyped_aircraft) = Some TypeError
   \<and> \<not> isFlying (state (fst (Aircraft_takeoff 7 airport0 untyped_aircraft)))
   \<and> ''constructor'' \<in> set Object_prototype_names
   \<and> Aircraft_setType ''constructor'' jet_without_group = NotASpec
   \<and> types ''jet'' = Some (Spec jet)
   \<and> \<not> warned (Aircraft_setType ''jet'' Aircraft)
   \<and> thrown (Aircraft_setType ''jet'' Aircraft) = Some TypeError
   \<and> currentType jet_without_group = Some jet
   \<and> group jet_without_group = None
   \<and> snd (Aircraft_takeoff 7 airport0 jet_without_group) = Some TypeError
   \<and> isFlying (state (fst (Aircraft_takeoff 7 airport0 jet_without_group)))"
proof -
  have h1: "types ''zeppelin'' = None" by (simp add: types_def Object_prototype_names_def)
  have h2: "group untyped_aircraft \<noteq> None" by (simp add: untyped_aircraft_def)
  have h3: "currentType untyped_aircraft = None" "\<not> isFlying (state untyped_aircraft)"
    by (simp_all add: untyped_aircraft_def Aircraft_def)
  have h4: "''constructor'' \<in> set Object_prototype_names"
    by (simp add: Object_prototype_names_def)
  have h5: "types ''jet'' = Some (Spec jet)" by (simp add: types_def)
  have h6: "group Aircraft = None" by (simp add: Aircraft_def)
  note th1 = setType_substitutes_cessna_takeoff_needs_type_and_group
               [where t = "''zeppelin''" and a = untyped_aircraft and now = 7 and ap = airport0]
  note th2 = setType_substitutes_cessna_takeoff_needs_type_and_group
               [where t = "''constructor''" and a = jet_without_group and now = 7
                  and ap = airport0]
  note th3 = setType_substitutes_cessna_takeoff_needs_type_and_group
               [where t = "''jet''" and a = Aircraft and spec = jet and now = 7 and ap = airport0]
  from th1 h1 h2 obtain a1 where
    s1: "Aircraft_setType ''zeppelin'' untyped_aircraft = Done a1 None True"
    and c1: "currentType a1 = Some cessna"
    and t1: "speed (state (fst (Aircraft_takeoff 7 airport0 a1))) = 300"
    by auto
  from th1 h3 have u1: "snd (Aircraft_takeoff 7 airport0 untyped_aircraft) = Some TypeError"
    and u2: "\<not> isFlying (state (fst (Aircraft_takeoff 7 airport0 untyped_aircraft)))"
    by simp_all
  from th2 h4 have n: "Aircraft_setType ''constructor'' jet_without_group = NotASpec" by simp
  from th3 h5 h6 obtain a3 where
    s3: "Aircraft_setType ''jet'' Aircraft = Done a3 (Some TypeError) False"
    and c3: "currentType a3 = Some jet"
    by auto
  have j1: "currentType jet_without_group = Some jet" by (simp add: jet_without_group_def s3 c3)
  have j2: "group jet_without_group = None"
    by (simp add: jet_without_group_def Aircraft_setType_def types_def setType_body_def
        Aircraft_def Let_def)
  from th2 j1 j2 have w: "snd (Aircraft_takeoff 7 airport0 jet_without_group) = Some TypeError
      \<and> isFlying (state (fst (Aircraft_takeoff 7 airport0 jet_without_group)))"
    by simp
  from h1 h2 h3 s1 c1 t1 u1 u2 h4 n h5 s3 j1 j2 w show ?thesis by simp
qed

section \<open>Camera: setting a view\<close>

lemma setView_same_view:
  "currentView c = view \<Longrightarrow> transition (fst (Camera_setView view anim c)) = transition c"
  by (simp add: Camera_setView_def Let_def split: option.splits)

lemma setView_same_view_currentView:
  "currentView c = view \<Longrightarrow> currentView (fst (Camera_setView view anim c)) = view"
  by (simp add: Camera_setView_def Let_def split: option.splits)

lemma setView_currentView:
  "view \<in> set views \<Longrightarrow> currentView c \<noteq> view \<Longrightarrow>
   currentView (fst (Camera_setView view True c)) = view"
  by (simp add: Camera_setView_def Let_def split: option.splits)

lemma setView_not_in_views:
  "view \<notin> set views \<Longrightarrow> Camera_setView view anim c = (c, None)"
  by (simp add: Camera_setView_def)

lemma setView_after_setView:
  "currentView (fst (Camera_setView view True c)) = view \<or> view \<notin> set views"
  using setView_same_view_currentView setView_currentView by blast

text \<open>
  C8. Calling \<open>Camera.setView\<close> a second time with the same view and \<open>animate = true\<close>
  leaves the whole transition record (active, progress, from, to, duration) as the first
  call left it: no transition is started and none is reset. This holds for every view name,
  those of the view list included.
\<close>

theorem setView_twice_same_transition:
  "transition (fst (Camera_setView view True (fst (Camera_setView view True c))))
     = transition (fst (Camera_setView view True c))"
proof (cases "view \<in> set views")
  case False
  then show ?thesis by (simp add: setView_not_in_views)
next
  case True
  then have "currentView (fst (Camera_setView view True c)) = view"
    using setView_after_setView by blast
  then show ?thesis by (rule setView_same_view)
qed

section \<open>Camera: the per-tick update\<close>

lemma andThen_ok: "snd r = None \<Longrightarrow> andThen r f = f (fst r)"
  by (simp add: andThen_def)

lemma andThen_error: "snd r = Some e \<Longrightarrow> andThen r f = r"
  by (simp add: andThen_def)

lemma andThen_cases: "andThen r f = r \<or> andThen r f = f (fst r)"
  by (cases "snd r") (simp_all add: andThen_def)

lemma error_is_TypeError: "(e :: error) = TypeError"
  by (cases e) simp

lemma handleTransition_frame:
  "shake (fst (handleTransition dt c)) = shake c"
  "camera (fst (handleTransition dt c)) = camera c"
  "currentView (fst (handleTransition dt c)) = currentView c"
  by (simp_all add: handleTransition_def Let_def split: option.splits)

lemma speedFOV_frame:
  "shake (fst (speedFOV a c)) = shake c"
  "transition (fst (speedFOV a c)) = transition c"
  "cam_state (fst (speedFOV a c)) = cam_state c"
  by (simp_all add: speedFOV_def Let_def split: option.splits)

lemma cameraShake_frame:
  "transition (fst (cameraShake a dt c)) = transition c"
  "cam_state (fst (cameraShake a dt c)) = cam_state c"
  by (simp_all add: cameraShake_def Let_def split: option.splits)

lemma cameraPose_frame:
  "transition (fst (cameraPose a c)) = transition c"
  "cam_state (fst (cameraPose a c)) = cam_state c"
  "shake (fst (cameraPose a c)) = shake c"
  by (simp_all add: cameraPose_def Let_def split: option.splits prod.splits)

lemma Camera_update_flying:
  "isFlying (state a) \<Longrightarrow> group a \<noteq> None \<Longrightarrow>
   Camera_update a dt c =
     andThen (andThen (andThen (handleTransition dt c) (speedFOV a)) (cameraShake a dt))
             (cameraPose a)"
  by (auto simp: Camera_update_def)

text \<open>With a \<open>getFlightPhase\<close> method the shake target is the one the branches assign.\<close>

lemma cameraShake_intensity:
  "getFlightPhase a = Some phaseOf \<Longrightarrow>
   snd (cameraShake a dt c) = None \<and>
   intensity (shake (fst (cameraShake a dt c))) =
     (if phaseOf (state a) = ''takeoff_roll'' \<or> phaseOf (state a) = ''climbing'' then 0.05
      else if phaseOf (state a) = ''taxiing'' then 0.02
      else intensity (shake c) * 0.95)"
  by (simp add: cameraShake_def Let_def lerp_def)

text \<open>Without it the call throws, and the shake is as it was.\<close>

lemma cameraShake_no_method:
  "getFlightPhase a = None \<Longrightarrow> cameraShake a dt c = (c, Some TypeError)"
  by (simp add: cameraShake_def)

lemma Camera_update_no_method:
  assumes "getFlightPhase a = None" and "isFlying (state a)" and "group a \<noteq> None"
  shows "snd (Camera_update a dt c) = Some TypeError
         \<and> shake (fst (Camera_update a dt c)) = shake c"
proof -
  define r1 where "r1 = handleTransition dt c"
  define r2 where "r2 = andThen r1 (speedFOV a)"
  define r3 where "r3 = andThen r2 (cameraShake a dt)"
  have upd: "Camera_update a dt c = andThen r3 (cameraPose a)"
    using assms(2,3) by (simp add: Camera_update_flying r1_def r2_def r3_def)
  have s1: "shake (fst r1) = shake c" by (simp add: r1_def handleTransition_frame)
  have s2: "shake (fst r2) = shake c"
    using andThen_cases [of r1 "speedFOV a"] s1 by (auto simp: r2_def speedFOV_frame)
  have r3_cases: "r3 = r2 \<and> snd r2 \<noteq> None \<or> r3 = (fst r2, Some TypeError)"
    by (cases "snd r2") (simp_all add: r3_def andThen_def cameraShake_no_method assms(1))
  then have e3: "snd r3 = Some TypeError" and s3: "shake (fst r3) = shake c"
    using s2 by (auto simp: error_is_TypeError)
  from e3 have "andThen r3 (cameraPose a) = r3" by (rule andThen_error)
  with upd e3 s3 show ?thesis by simp
qed

lemma camera_ready_eq: "camera_ready = Camera\<lparr>camera := Some scene_camera\<rparr>"
  by (simp add: camera_ready_def Camera_init_def Camera_setView_def views_def viewSettings_def
      Camera_def scene_camera_def Let_def)

text \<open>No operation of the Aircraft object gives it the method.\<close>

lemma Aircraft_operations_keep_getFlightPhase:
  "Aircraft_setType t a = Done a' e w \<Longrightarrow> getFlightPhase a' = getFlightPhase a"
  "Aircraft_init t a = Done a' e w \<Longrightarrow> getFlightPhase a' = getFlightPhase a"
  "getFlightPhase (Aircraft_setInput i a) = getFlightPhase a"
  "getFlightPhase (fst (Aircraft_takeoff now ap a)) = getFlightPhase a"
  "getFlightPhase (fst (Aircraft_update dt a)) = getFlightPhase a"
  by (auto simp add: Aircraft_setType_def Aircraft_init_def setType_body_def Aircraft_setInput_def
      Aircraft_takeoff_def Aircraft_update_def Let_def
      split: option.splits prod.splits types_entry.splits if_splits)

text \<open>
  C3. \<open>Camera.update\<close> is meant to read a flight phase from the aircraft and set the shake
  intensity from it. The Aircraft object defines no \<open>getFlightPhase\<close>: for the Cessna that
  has just taken off, the first camera update of the flight throws a TypeError at that call,
  and the shake intensity stays at its initial 0 instead of being set.
\<close>

theorem Camera_update_throws_at_getFlightPhase:
  "getFlightPhase cessna_at_origin = None
   \<and> snd (Camera_update cessna_at_origin (1 / 60) camera_ready) = Some TypeError
   \<and> intensity (shake (fst (Camera_update cessna_at_origin (1 / 60) camera_ready))) = 0"
proof -
  have g: "getFlightPhase cessna_at_origin = None" by (simp add: cessna_at_origin_eq)
  have "snd (Camera_update cessna_at_origin (1 / 60) camera_ready) = Some TypeError \<and>
    shake (fst (Camera_update cessna_at_origin (1 / 60) camera_ready)) = shake camera_ready"
    by (rule Camera_update_no_method) (simp_all add: cessna_at_origin_eq)
  with g show ?thesis by (simp add: camera_ready_eq Camera_def)
qed

theorem Camera_update_throws_at_getFlightPhase_witness:
  "isFlying (state cessna_at_origin)
   \<and> group cessna_at_origin \<noteq> None
   \<and> Camera_update cessna_at_origin (1 / 60) camera_ready \<noteq> (camera_ready, None)"
proof -
  have "isFlying (state cessna_at_origin)" and "group cessna_at_origin \<noteq> None"
    by (simp_all add: cessna_at_origin_eq)
  moreover have "Camera_update cessna_at_origin (1 / 60) camera_ready \<noteq> (camera_ready, None)"
    using Camera_update_throws_at_getFlightPhase by auto
  ultimately show ?thesis by simp
qed

section \<open>Camera: transitions and the rounded progress\<close>

lemma easeInOutCubic_1: "easeInOutCubic 1 = 1"
  by (simp add: easeInOutCubic_def)

text \<open>Rounding to double precision, evaluated on one binade at a time.\<close>

lemma two_powr_neg: "(2::real) powr (- real m) = 1 / 2 ^ m"
  by (simp add: powr_minus_divide powr_realpow)

lemma double_exponent_binade:
  assumes "1 / 2 ^ Suc n \<le> x" and "x < 1 / 2 ^ n" and "n \<le> 1021"
  shows "double_exponent x = - int (Suc n)"
proof -
  have "(0::real) < 1 / 2 ^ Suc n" by simp
  with assms(1) have pos: "0 < x" by linarith
  have "real_of_int (- int (Suc n)) = - real (Suc n)" by simp
  then have lo: "2 powr (of_int (- int (Suc n))) = 1 / (2::real) ^ Suc n"
    by (simp only: two_powr_neg)
  have "real_of_int (- int (Suc n) + 1) = - real n" by simp
  then have hi: "2 powr (of_int (- int (Suc n) + 1)) = 1 / (2::real) ^ n"
    by (simp only: two_powr_neg)
  have "2 powr (of_int (- int (Suc n))) \<le> x \<and> x < 2 powr (of_int (- int (Suc n) + 1))"
    unfolding lo hi using assms(1,2) by simp
  then have "\<lfloor>log 2 x\<rfloor> = - int (Suc n)"
    using pos by (subst floor_log_eq_powr_iff) simp_all
  then show ?thesis using pos assms(3) by (simp add: double_exponent_def)
qed

lemma to_double_binade:
  assumes "1 / 2 ^ Suc n \<le> x" and "x < 1 / 2 ^ n" and "n \<le> 1021"
  shows "to_double x = of_int (round_half_even (x * 2 ^ (n + 53))) / 2 ^ (n + 53)"
proof -
  have "(0::real) < 1 / 2 ^ Suc n" by simp
  with assms(1) have pos: "x \<noteq> 0" by linarith
  have e: "double_exponent x = - int (Suc n)" using assms by (rule double_exponent_binade)
  have "real_of_int (- int (Suc n)) - 52 = - real (n + 53)" by simp
  then have u: "2 powr (real_of_int (double_exponent x) - 52) = 1 / (2::real) ^ (n + 53)"
    unfolding e by (simp only: two_powr_neg)
  show ?thesis using pos by (simp add: to_double_def Let_def u del: power_Suc)
qed

lemma to_double_unit:
  assumes "1 \<le> x" and "x < 2"
  shows "to_double x = of_int (round_half_even (x * 2 ^ 52)) / 2 ^ 52"
proof -
  from assms(1) have pos: "0 < x" by linarith
  have "2 powr (of_int 0) \<le> x \<and> x < 2 powr (of_int (0 + 1))" using assms by simp
  then have "\<lfloor>log 2 x\<rfloor> = 0" using pos by (subst floor_log_eq_powr_iff) simp_all
  then have e: "double_exponent x = 0" using pos by (simp add: double_exponent_def)
  have "(2::real) powr (- real 52) = 1 / 2 ^ 52" by (rule two_powr_neg)
  then have u: "2 powr (real_of_int (double_exponent x) - 52) = 1 / (2::real) ^ 52"
    unfolding e by simp
  show ?thesis using pos by (simp add: to_double_def Let_def u)
qed

lemma to_double_quarter: "to_double (1 / 4) = 1 / 4"
  by (simp add: to_double_binade [where n = 1] round_half_even_def)

lemma to_double_half: "to_double (1 / 2) = 1 / 2"
  by (simp add: to_double_binade [where n = 0] round_half_even_def)

lemma to_double_one: "to_double 1 = 1"
  by (simp add: to_double_unit round_half_even_def)

text \<open>The rounding error: half a unit in the last place.\<close>

lemma round_half_even_error: "\<bar>of_int (round_half_even y) - y\<bar> \<le> 1 / 2"
  unfolding round_half_even_def Let_def by (auto simp: abs_if) linarith+

lemma round_half_even_floor: "\<lfloor>y\<rfloor> \<le> round_half_even y"
  by (simp add: round_half_even_def Let_def)

lemma to_double_error:
  "\<bar>to_double x - x\<bar> \<le> 2 powr (of_int (double_exponent x) - 52) / 2"
proof (cases "x = 0")
  case True
  then show ?thesis by (simp add: to_double_def)
next
  case False
  define u :: real where "u = 2 powr (of_int (double_exponent x) - 52)"
  have u: "0 < u" by (simp add: u_def)
  have "to_double x - x = u * (of_int (round_half_even (x / u)) - x / u)"
    using False u by (simp add: to_double_def Let_def u_def [symmetric] algebra_simps)
  then have "\<bar>to_double x - x\<bar> = u * \<bar>of_int (round_half_even (x / u)) - x / u\<bar>"
    using u by (simp add: abs_mult)
  also have "\<dots> \<le> u * (1 / 2)"
    using u round_half_even_error [of "x / u"] by (intro mult_left_mono) simp_all
  finally show ?thesis by (simp add: u_def)
qed

lemma to_double_nonneg: "0 \<le> x \<Longrightarrow> 0 \<le> to_double x"
proof -
  assume h: "0 \<le> x"
  define u :: real where "u = 2 powr (of_int (double_exponent x) - 52)"
  have u: "0 < u" by (simp add: u_def)
  have "0 \<le> x / u" using h u by simp
  then have "0 \<le> \<lfloor>x / u\<rfloor>" by simp
  then have "0 \<le> round_half_even (x / u)" using round_half_even_floor [of "x / u"] by linarith
  then show ?thesis using u by (simp add: to_double_def Let_def u_def [symmetric])
qed

lemma to_double_ge_1: assumes "1 \<le> x" shows "1 \<le> to_double x"
proof -
  from assms have pos: "0 < x" by linarith
  have l: "0 \<le> log 2 x" using assms by simp
  then have f: "0 \<le> \<lfloor>log 2 x\<rfloor>" by simp
  have e: "double_exponent x = \<lfloor>log 2 x\<rfloor>"
  proof -
    have "\<bar>x\<bar> = x" using pos by simp
    moreover from f have "- 1022 \<le> \<lfloor>log 2 x\<rfloor>" by linarith
    then have "max \<lfloor>log 2 x\<rfloor> (- 1022) = \<lfloor>log 2 x\<rfloor>" by (rule max_absorb1)
    ultimately show ?thesis by (simp only: double_exponent_def)
  qed
  define k where "k = \<lfloor>log 2 x\<rfloor>"
  define u :: real where "u = 2 powr (of_int k - 52)"
  have u: "0 < u" by (simp add: u_def)
  have "2 powr (of_int k) \<le> x"
    using pos k_def by (metis floor_log_eq_powr_iff one_less_numeral_iff semiring_norm(76))
  moreover have "2 powr (of_int k) = u * 2 ^ 52"
    by (simp add: u_def powr_diff)
  ultimately have "(2::real) ^ 52 \<le> x / u" using u by (simp add: pos_le_divide_eq mult.commute)
  then have "(2::int) ^ 52 \<le> \<lfloor>x / u\<rfloor>" by (simp add: le_floor_iff)
  then have "(2::int) ^ 52 \<le> round_half_even (x / u)"
    using round_half_even_floor [of "x / u"] by linarith
  then have "(2::real) ^ 52 \<le> of_int (round_half_even (x / u))"
    by (metis of_int_le_iff of_int_numeral of_int_power)
  then have "u * 2 ^ 52 \<le> u * of_int (round_half_even (x / u))"
    using u by (intro mult_left_mono) simp_all
  moreover have "1 \<le> u * 2 ^ 52"
  proof -
    have "(1::real) \<le> 2 powr (of_int k)" using f k_def by (simp add: ge_one_powr_ge_zero)
    then show ?thesis by (simp add: u_def powr_diff)
  qed
  ultimately have "1 \<le> u * of_int (round_half_even (x / u))" by linarith
  then show ?thesis using pos by (simp add: to_double_def Let_def e k_def [symmetric] u_def)
qed


lemma to_double_error_below_1:
  assumes "0 \<le> y" and "y < 1"
  shows "\<bar>to_double y - y\<bar> \<le> 1 / 2 ^ 54"
proof (cases "y = 0")
  case True
  then show ?thesis by (simp add: to_double_def)
next
  case False
  with assms have pos: "0 < y" by simp
  then have "log 2 y < 0" using assms(2) by simp
  then have "\<lfloor>log 2 y\<rfloor> \<le> - 1" by linarith
  then have "max \<lfloor>log 2 y\<rfloor> (- 1022) \<le> - 1" by simp
  moreover have "\<bar>y\<bar> = y" using pos by simp
  ultimately have "double_exponent y \<le> - 1" by (simp only: double_exponent_def)
  then have "real_of_int (double_exponent y) - 52 \<le> - real 53" by simp
  then have "2 powr (real_of_int (double_exponent y) - 52) \<le> (2::real) powr (- real 53)"
    by (intro powr_mono) simp_all
  also have "\<dots> = 1 / 2 ^ 53" by (rule two_powr_neg)
  finally have "2 powr (real_of_int (double_exponent y) - 52) / 2 \<le> 1 / 2 ^ 54" by simp
  with to_double_error [of y] show ?thesis by linarith
qed

lemma to_double_error_relative:
  assumes "0 \<le> x"
  shows "\<bar>to_double x - x\<bar> \<le> x / 2 ^ 53 + 1 / 2 ^ 54"
proof (cases "x = 0")
  case True
  then show ?thesis by (simp add: to_double_def)
next
  case False
  with assms have pos: "0 < x" by simp
  then have ax: "\<bar>x\<bar> = x" by simp
  define k where "k = \<lfloor>log 2 x\<rfloor>"
  show ?thesis
  proof (cases "- 1022 \<le> k")
    case True
    then have "max k (- 1022) = k" by (rule max_absorb1)
    then have e: "double_exponent x = k" by (simp only: double_exponent_def ax k_def)
    have "2 powr (of_int k) \<le> x"
      using pos k_def by (metis floor_log_eq_powr_iff one_less_numeral_iff semiring_norm(76))
    moreover have "2 powr (real_of_int k - 52) / 2 = 2 powr (of_int k) / 2 ^ 53"
      by (simp add: powr_diff)
    ultimately have "2 powr (real_of_int (double_exponent x) - 52) / 2 \<le> x / 2 ^ 53"
      unfolding e by (simp add: divide_right_mono)
    with to_double_error [of x] show ?thesis by (simp add: add_increasing2)
  next
    case False
    then have "max k (- 1022) = - 1022" by simp
    then have e: "double_exponent x = - 1022" by (simp only: double_exponent_def ax k_def)
    have "real_of_int (- 1022) - 52 \<le> - real 53" by simp
    then have "2 powr (real_of_int (- 1022) - 52) \<le> (2::real) powr (- real 53)"
      by (intro powr_mono) simp_all
    also have "\<dots> = 1 / 2 ^ 53" by (rule two_powr_neg)
    finally have "2 powr (real_of_int (double_exponent x) - 52) / 2 \<le> 1 / 2 ^ 54"
      unfolding e by simp
    moreover have "0 \<le> x / 2 ^ 53" using assms by simp
    ultimately show ?thesis using to_double_error [of x] by linarith
  qed
qed

lemma handleTransition_inactive:
  "\<not> active (transition c) \<Longrightarrow> handleTransition dt c = (c, None)"
  by (simp add: handleTransition_def)

lemma handleTransition_active:
  assumes "active (transition c)" and "tr_from (transition c) = Some f"
    and "tr_to (transition c) = Some g"
  shows "transition (fst (handleTransition dt c)) =
           (if 1 \<le> progress_after (progress (transition c)) (duration (transition c)) [dt]
            then (transition c)\<lparr>active := False, progress := 1\<rparr>
            else (transition c)\<lparr>progress :=
                    progress_after (progress (transition c)) (duration (transition c)) [dt]\<rparr>)"
    and "cam_state (fst (handleTransition dt c)) =
           \<lparr>distance = (1 - easeInOutCubic (progress (transition (fst (handleTransition dt c)))))
                          * distance f
                        + easeInOutCubic (progress (transition (fst (handleTransition dt c))))
                          * distance g,
            height = (1 - easeInOutCubic (progress (transition (fst (handleTransition dt c)))))
                        * height f
                      + easeInOutCubic (progress (transition (fst (handleTransition dt c))))
                        * height g,
            fov = (1 - easeInOutCubic (progress (transition (fst (handleTransition dt c)))))
                     * fov f
                   + easeInOutCubic (progress (transition (fst (handleTransition dt c))))
                     * fov g\<rparr>"
    and "snd (handleTransition dt c) = None"
  using assms by (simp_all add: handleTransition_def Let_def lerp_def)

lemma Camera_update_transition:
  assumes "isFlying (state a)" and "group a \<noteq> None"
  shows "transition (fst (Camera_update a dt c)) = transition (fst (handleTransition dt c))"
    and "cam_state (fst (Camera_update a dt c)) = cam_state (fst (handleTransition dt c))"
proof -
  define r1 where "r1 = handleTransition dt c"
  define r2 where "r2 = andThen r1 (speedFOV a)"
  define r3 where "r3 = andThen r2 (cameraShake a dt)"
  define r4 where "r4 = andThen r3 (cameraPose a)"
  have upd: "Camera_update a dt c = r4"
    using assms by (simp add: Camera_update_flying r1_def r2_def r3_def r4_def)
  have s2: "transition (fst r2) = transition (fst r1) \<and> cam_state (fst r2) = cam_state (fst r1)"
    using andThen_cases [of r1 "speedFOV a"] by (auto simp: r2_def speedFOV_frame)
  have s3: "transition (fst r3) = transition (fst r2) \<and> cam_state (fst r3) = cam_state (fst r2)"
    using andThen_cases [of r2 "cameraShake a dt"] by (auto simp: r3_def cameraShake_frame)
  have s4: "transition (fst r4) = transition (fst r3) \<and> cam_state (fst r4) = cam_state (fst r3)"
    using andThen_cases [of r3 "cameraPose a"] by (auto simp: r4_def cameraPose_frame)
  show "transition (fst (Camera_update a dt c)) = transition (fst (handleTransition dt c))"
    using s2 s3 s4 by (simp add: upd r1_def)
  show "cam_state (fst (Camera_update a dt c)) = cam_state (fst (handleTransition dt c))"
    using s2 s3 s4 by (simp add: upd r1_def)
qed

lemma Camera_update_inactive:
  "\<not> active (transition c) \<Longrightarrow>
   transition (fst (Camera_update a dt c)) = transition c
   \<and> cam_state (fst (Camera_update a dt c)) = cam_state c"
proof (cases "isFlying (state a) \<and> group a \<noteq> None")
  case True
  assume "\<not> active (transition c)"
  then show ?thesis using True
    by (simp add: Camera_update_transition handleTransition_inactive)
next
  case False
  then show ?thesis by (auto simp: Camera_update_def)
qed

lemma Camera_updates_inactive:
  "\<not> active (transition c) \<Longrightarrow>
   transition (Camera_updates ticks c) = transition c
   \<and> cam_state (Camera_updates ticks c) = cam_state c"
proof (induction ticks arbitrary: c)
  case Nil
  then show ?case by simp
next
  case (Cons tick ticks)
  obtain a dt where tick: "tick = (a, dt)" by (cases tick)
  from Cons.prems have u: "transition (fst (Camera_update a dt c)) = transition c
     \<and> cam_state (fst (Camera_update a dt c)) = cam_state c"
    by (rule Camera_update_inactive)
  with Cons.prems have "\<not> active (transition (fst (Camera_update a dt c)))" by simp
  from Cons.IH [OF this] u show ?case by (simp add: tick)
qed

text \<open>One tick in flight, on an active transition.\<close>

lemma Camera_update_active:
  assumes "isFlying (state a)" and "group a \<noteq> None"
    and "active (transition c)" and "tr_from (transition c) = Some f"
    and "tr_to (transition c) = Some g"
  shows "1 \<le> progress_after (progress (transition c)) (duration (transition c)) [dt] \<Longrightarrow>
           transition (fst (Camera_update a dt c)) = (transition c)\<lparr>active := False, progress := 1\<rparr>
           \<and> cam_state (fst (Camera_update a dt c)) = g"
    and "progress_after (progress (transition c)) (duration (transition c)) [dt] < 1 \<Longrightarrow>
           transition (fst (Camera_update a dt c))
             = (transition c)\<lparr>progress :=
                  progress_after (progress (transition c)) (duration (transition c)) [dt]\<rparr>"
    and "cam_state (fst (Camera_update a dt c)) =
           \<lparr>distance = (1 - easeInOutCubic (progress (transition (fst (Camera_update a dt c)))))
                          * distance f
                        + easeInOutCubic (progress (transition (fst (Camera_update a dt c))))
                          * distance g,
            height = (1 - easeInOutCubic (progress (transition (fst (Camera_update a dt c)))))
                        * height f
                      + easeInOutCubic (progress (transition (fst (Camera_update a dt c))))
                        * height g,
            fov = (1 - easeInOutCubic (progress (transition (fst (Camera_update a dt c)))))
                     * fov f
                   + easeInOutCubic (progress (transition (fst (Camera_update a dt c))))
                     * fov g\<rparr>"
proof -
  note tr = Camera_update_transition [OF assms(1,2), of dt c]
  note ht = handleTransition_active [OF assms(3-5), of dt]
  show "cam_state (fst (Camera_update a dt c)) =
           \<lparr>distance = (1 - easeInOutCubic (progress (transition (fst (Camera_update a dt c)))))
                          * distance f
                        + easeInOutCubic (progress (transition (fst (Camera_update a dt c))))
                          * distance g,
            height = (1 - easeInOutCubic (progress (transition (fst (Camera_update a dt c)))))
                        * height f
                      + easeInOutCubic (progress (transition (fst (Camera_update a dt c))))
                        * height g,
            fov = (1 - easeInOutCubic (progress (transition (fst (Camera_update a dt c)))))
                     * fov f
                   + easeInOutCubic (progress (transition (fst (Camera_update a dt c))))
                     * fov g\<rparr>"
    unfolding tr by (rule ht(2))
  assume "progress_after (progress (transition c)) (duration (transition c)) [dt] < 1"
  then show "transition (fst (Camera_update a dt c))
             = (transition c)\<lparr>progress :=
                  progress_after (progress (transition c)) (duration (transition c)) [dt]\<rparr>"
    unfolding tr ht(1) by simp
next
  note tr = Camera_update_transition [OF assms(1,2), of dt c]
  note ht = handleTransition_active [OF assms(3-5), of dt]
  assume h: "1 \<le> progress_after (progress (transition c)) (duration (transition c)) [dt]"
  then have t1: "transition (fst (handleTransition dt c))
                   = (transition c)\<lparr>active := False, progress := 1\<rparr>"
    unfolding ht(1) by simp
  have "cam_state (fst (handleTransition dt c)) = g"
    unfolding ht(2) t1 by (simp add: easeInOutCubic_1)
  with t1 show "transition (fst (Camera_update a dt c))
                  = (transition c)\<lparr>active := False, progress := 1\<rparr>
                \<and> cam_state (fst (Camera_update a dt c)) = g"
    unfolding tr by simp
qed

text \<open>
  A run of ticks in flight: the transition ends at the first tick whose rounded running
  sum is at least 1, and is still under way if there is none.
\<close>

lemma Camera_updates_run:
  assumes "flying_ticks ticks"
    and "active (transition c)" and "tr_from (transition c) = Some f"
    and "tr_to (transition c) = Some g"
  shows "if reaches_one (progress (transition c)) (duration (transition c)) (map snd ticks)
         then cam_state (Camera_updates ticks c) = g
              \<and> transition (Camera_updates ticks c)
                  = (transition c)\<lparr>active := False, progress := 1\<rparr>
         else transition (Camera_updates ticks c)
                = (transition c)\<lparr>progress :=
                     progress_after (progress (transition c)) (duration (transition c))
                       (map snd ticks)\<rparr>"
  using assms
proof (induction ticks arbitrary: c)
  case Nil
  then show ?case by simp
next
  case (Cons tick ticks)
  obtain a dt where tick: "tick = (a, dt)" by (cases tick)
  define c' where "c' = fst (Camera_update a dt c)"
  define p where "p = progress_after (progress (transition c)) (duration (transition c)) [dt]"
  from Cons.prems(1) have fl: "isFlying (state a)" "group a \<noteq> None"
    and rest: "flying_ticks ticks"
    by (simp_all add: flying_ticks_def tick)
  note upd = Camera_update_active [OF fl Cons.prems(2-4), of dt]
  have step: "Camera_updates (tick # ticks) c = Camera_updates ticks c'"
    by (simp add: tick c'_def)
  have p_eq: "p = to_double (progress (transition c) + to_double (dt / duration (transition c)))"
    by (simp add: p_def)
  show ?case
  proof (cases "1 \<le> p")
    case True
    then have tr1: "transition c' = (transition c)\<lparr>active := False, progress := 1\<rparr>"
      and st1: "cam_state c' = g"
      using upd(1) by (simp_all add: c'_def p_def)
    from tr1 have "\<not> active (transition c')" by simp
    then have "transition (Camera_updates ticks c') = transition c'
               \<and> cam_state (Camera_updates ticks c') = cam_state c'"
      by (rule Camera_updates_inactive)
    moreover have "reaches_one (progress (transition c)) (duration (transition c))
                     (map snd (tick # ticks))"
      using True by (simp add: tick p_eq)
    ultimately show ?thesis by (simp add: step tr1 st1)
  next
    case False
    then have tr2: "transition c' = (transition c)\<lparr>progress := p\<rparr>"
      using upd(2) by (simp add: c'_def p_def)
    have ih: "if reaches_one (progress (transition c')) (duration (transition c')) (map snd ticks)
         then cam_state (Camera_updates ticks c') = g
              \<and> transition (Camera_updates ticks c')
                  = (transition c')\<lparr>active := False, progress := 1\<rparr>
         else transition (Camera_updates ticks c')
                = (transition c')\<lparr>progress :=
                     progress_after (progress (transition c')) (duration (transition c'))
                       (map snd ticks)\<rparr>"
      using rest Cons.prems(2-4) by (intro Cons.IH) (simp_all add: tr2)
    have r: "reaches_one (progress (transition c)) (duration (transition c))
               (map snd (tick # ticks))
             = reaches_one p (duration (transition c)) (map snd ticks)"
      using False by (simp add: tick p_eq)
    have q: "progress_after (progress (transition c)) (duration (transition c))
               (map snd (tick # ticks))
             = progress_after p (duration (transition c)) (map snd ticks)"
      by (simp add: tick p_eq)
    from ih show ?thesis unfolding step r q by (simp add: tr2)
  qed
qed

text \<open>After at least one tick, the parameters are the interpolation at the eased progress.\<close>

lemma Camera_updates_state:
  assumes "flying_ticks ticks" and "ticks \<noteq> []"
    and "active (transition c)" and "tr_from (transition c) = Some f"
    and "tr_to (transition c) = Some g"
  shows "cam_state (Camera_updates ticks c) =
           \<lparr>distance = (1 - easeInOutCubic (progress (transition (Camera_updates ticks c))))
                          * distance f
                        + easeInOutCubic (progress (transition (Camera_updates ticks c)))
                          * distance g,
            height = (1 - easeInOutCubic (progress (transition (Camera_updates ticks c))))
                        * height f
                      + easeInOutCubic (progress (transition (Camera_updates ticks c)))
                        * height g,
            fov = (1 - easeInOutCubic (progress (transition (Camera_updates ticks c))))
                     * fov f
                   + easeInOutCubic (progress (transition (Camera_updates ticks c)))
                     * fov g\<rparr>"
  using assms
proof (induction ticks arbitrary: c)
  case Nil
  then show ?case by simp
next
  case (Cons tick ticks)
  obtain a dt where tick: "tick = (a, dt)" by (cases tick)
  define c' where "c' = fst (Camera_update a dt c)"
  define p where "p = progress_after (progress (transition c)) (duration (transition c)) [dt]"
  from Cons.prems(1) have fl: "isFlying (state a)" "group a \<noteq> None"
    and rest: "flying_ticks ticks"
    by (simp_all add: flying_ticks_def tick)
  note upd = Camera_update_active [OF fl Cons.prems(3-5), of dt]
  have step: "Camera_updates (tick # ticks) c = Camera_updates ticks c'"
    by (simp add: tick c'_def)
  have now: "cam_state c' =
           \<lparr>distance = (1 - easeInOutCubic (progress (transition c'))) * distance f
                        + easeInOutCubic (progress (transition c')) * distance g,
            height = (1 - easeInOutCubic (progress (transition c'))) * height f
                      + easeInOutCubic (progress (transition c')) * height g,
            fov = (1 - easeInOutCubic (progress (transition c'))) * fov f
                   + easeInOutCubic (progress (transition c')) * fov g\<rparr>"
    unfolding c'_def by (rule upd(3))
  show ?case
  proof (cases "active (transition c') \<and> ticks \<noteq> []")
    case True
    have tr2: "transition c' = (transition c)\<lparr>progress := p\<rparr>"
    proof (cases "1 \<le> p")
      case True
      then have "transition c' = (transition c)\<lparr>active := False, progress := 1\<rparr>"
        using upd(1) by (simp add: c'_def p_def)
      with \<open>active (transition c') \<and> ticks \<noteq> []\<close> show ?thesis by simp
    next
      case False
      then show ?thesis using upd(2) by (simp add: c'_def p_def)
    qed
    show ?thesis unfolding step
      using rest True Cons.prems(3-5) by (intro Cons.IH) (simp_all add: tr2)
  next
    case False
    then have "Camera_updates ticks c' = c'
               \<or> (transition (Camera_updates ticks c') = transition c'
                  \<and> cam_state (Camera_updates ticks c') = cam_state c')"
      using Camera_updates_inactive [of c' ticks] by auto
    then show ?thesis unfolding step using now by auto
  qed
qed

text \<open>Without rounding, ticks that cover what is left of the duration reach 1.\<close>

lemma exact_sums_reach_one:
  "exact_sums p d dts \<Longrightarrow> p < 1 \<Longrightarrow> 1 \<le> p + sum_list dts / d \<Longrightarrow> reaches_one p d dts"
proof (induction dts arbitrary: p)
  case Nil
  then show ?case by simp
next
  case (Cons dt dts)
  from Cons.prems(1) have q: "to_double (dt / d) = dt / d"
    and s: "to_double (p + dt / d) = p + dt / d"
    and rest: "exact_sums (p + dt / d) d dts"
    by simp_all
  show ?case
  proof (cases "1 \<le> p + dt / d")
    case True
    then show ?thesis by (simp add: q s)
  next
    case False
    have "p + sum_list (dt # dts) / d = p + dt / d + sum_list dts / d"
      by (simp add: add_divide_distrib)
    with Cons.prems(3) have "1 \<le> p + dt / d + sum_list dts / d" by simp
    with rest False have "reaches_one (p + dt / d) d dts" by (intro Cons.IH) simp_all
    then show ?thesis by (simp add: q s)
  qed
qed

lemma progress_after_below_1:
  "\<not> reaches_one p d dts \<Longrightarrow> p < 1 \<Longrightarrow> progress_after p d dts < 1"
  by (induction dts arbitrary: p) simp_all

text \<open>
  A running sum that stays below 1 is below the exact sum by at most one rounding error of
  the quotient and one of the sum per tick.
\<close>

lemma progress_after_lower:
  assumes "0 < d"
  shows "list_all (\<lambda>x. 0 \<le> x) dts \<Longrightarrow> 0 \<le> p \<Longrightarrow> \<not> reaches_one p d dts \<Longrightarrow>
         p + sum_list dts / d - (real (length dts) + sum_list dts / d) / 2 ^ 53
           \<le> progress_after p d dts"
proof (induction dts arbitrary: p)
  case Nil
  then show ?case by simp
next
  case (Cons dt dts)
  define r where "r = dt / d"
  define q where "q = to_double r"
  define p' where "p' = to_double (p + q)"
  from Cons.prems(1) have dt: "0 \<le> dt" and rest: "list_all (\<lambda>x. 0 \<le> x) dts" by simp_all
  from dt assms have r: "0 \<le> r" by (simp add: r_def)
  then have q: "0 \<le> q" unfolding q_def by (rule to_double_nonneg)
  from to_double_error_relative [OF r] have rq: "r - q \<le> r / 2 ^ 53 + 1 / 2 ^ 54"
    unfolding q_def by linarith
  from Cons.prems(3) have below: "p' < 1" and nr: "\<not> reaches_one p' d dts"
    by (simp_all add: p'_def q_def r_def)
  have y0: "0 \<le> p + q" using Cons.prems(2) q by simp
  have y1: "p + q < 1"
  proof (rule ccontr)
    assume "\<not> p + q < 1"
    then have "1 \<le> to_double (p + q)" by (intro to_double_ge_1) simp
    with below show False by (simp add: p'_def)
  qed
  from to_double_error_below_1 [OF y0 y1] have yp: "p + q - p' \<le> 1 / 2 ^ 54"
    unfolding p'_def by linarith
  have p'0: "0 \<le> p'" unfolding p'_def using y0 by (rule to_double_nonneg)
  from Cons.IH [OF rest p'0 nr]
  have ih: "p' + sum_list dts / d - (real (length dts) + sum_list dts / d) / 2 ^ 53
              \<le> progress_after p' d dts" .
  have pa: "progress_after p d (dt # dts) = progress_after p' d dts"
    by (simp add: p'_def q_def r_def)
  have s: "sum_list (dt # dts) / d = r + sum_list dts / d"
    by (simp add: r_def add_divide_distrib)
  have l: "real (length (dt # dts)) = 1 + real (length dts)" by simp
  have "p + (r + sum_list dts / d) - (1 + real (length dts) + (r + sum_list dts / d)) / 2 ^ 53
          \<le> p' + sum_list dts / d - (real (length dts) + sum_list dts / d) / 2 ^ 53"
    using rq yp by (simp add: add_divide_distrib diff_divide_distrib)
  with ih show ?case unfolding pa s l by linarith
qed

lemma easeInOutCubic_near_1:
  assumes "1 / 2 \<le> t"
  shows "1 - easeInOutCubic t = 4 * (1 - t) ^ 3"
proof -
  from assms have "easeInOutCubic t = 1 - (- 2 * t + 2) ^ 3 / 2"
    by (simp add: easeInOutCubic_def)
  moreover have "- 2 * t + 2 = 2 * (1 - t)" by simp
  then have "(- 2 * t + 2) ^ 3 = 8 * (1 - t) ^ 3" by (simp only: power_mult_distrib) simp
  ultimately show ?thesis by simp
qed

lemma blend_error:
  fixes e b x y :: real
  assumes "0 \<le> 1 - e" and "1 - e \<le> b"
  shows "\<bar>(1 - e) * x + e * y - y\<bar> \<le> b * \<bar>x - y\<bar>"
proof -
  have "(1 - e) * x + e * y - y = (1 - e) * (x - y)" by (simp add: algebra_simps)
  then have "\<bar>(1 - e) * x + e * y - y\<bar> = (1 - e) * \<bar>x - y\<bar>"
    using assms(1) by (simp add: abs_mult)
  also have "\<dots> \<le> b * \<bar>x - y\<bar>" using assms(2) by (intro mult_right_mono) simp_all
  finally show ?thesis .
qed

text \<open>
  Ticks that add up to exactly the duration: the progress ends at 1 or one rounding error
  per tick below it, and the parameters are that close to the target's.
\<close>

lemma Camera_updates_near_completion:
  assumes fl: "flying_ticks ticks" and nn: "list_all (\<lambda>x. 0 \<le> x) (map snd ticks)"
    and act: "active (transition c)" and fr: "tr_from (transition c) = Some f"
    and to: "tr_to (transition c) = Some g"
    and d: "0 < duration (transition c)"
    and p0: "0 \<le> progress (transition c)" and p1: "progress (transition c) < 1"
    and sum: "sum_list (map snd ticks) = duration (transition c)"
  shows "1 - (real (length ticks) + 1) / 2 ^ 53 \<le> progress (transition (Camera_updates ticks c))"
    and "progress (transition (Camera_updates ticks c)) \<le> 1"
    and "length ticks < 2 ^ 52 \<Longrightarrow>
         \<bar>distance (cam_state (Camera_updates ticks c)) - distance g\<bar>
            \<le> 4 * ((real (length ticks) + 1) / 2 ^ 53) ^ 3 * \<bar>distance f - distance g\<bar>
         \<and> \<bar>height (cam_state (Camera_updates ticks c)) - height g\<bar>
            \<le> 4 * ((real (length ticks) + 1) / 2 ^ 53) ^ 3 * \<bar>height f - height g\<bar>
         \<and> \<bar>fov (cam_state (Camera_updates ticks c)) - fov g\<bar>
            \<le> 4 * ((real (length ticks) + 1) / 2 ^ 53) ^ 3 * \<bar>fov f - fov g\<bar>"
proof -
  define P where "P = progress (transition (Camera_updates ticks c))"
  define b where "b = (real (length ticks) + 1) / 2 ^ 53"
  have b0: "0 \<le> b" by (simp add: b_def)
  note run = Camera_updates_run [OF fl act fr to]
  have bounds: "1 - b \<le> P \<and> P \<le> 1"
  proof (cases "reaches_one (progress (transition c)) (duration (transition c)) (map snd ticks)")
    case True
    with run have "P = 1" by (simp add: P_def)
    with b0 show ?thesis by simp
  next
    case False
    with run have P: "P = progress_after (progress (transition c)) (duration (transition c))
                           (map snd ticks)"
      by (simp add: P_def)
    from progress_after_below_1 [OF False p1] have "P < 1" by (simp add: P)
    moreover from progress_after_lower [OF d nn p0 False]
    have "progress (transition c) + 1 - (real (length ticks) + 1) / 2 ^ 53 \<le> P"
      using d by (simp add: P sum)
    ultimately show ?thesis using p0 by (simp add: b_def)
  qed
  then show "1 - (real (length ticks) + 1) / 2 ^ 53 \<le> progress (transition (Camera_updates ticks c))"
    and "progress (transition (Camera_updates ticks c)) \<le> 1"
    by (simp_all add: P_def b_def)
  assume len: "length ticks < 2 ^ 52"
  then have "real (length ticks) + 1 \<le> 2 ^ 52"
    by (metis Suc_leI of_nat_Suc of_nat_le_iff of_nat_numeral of_nat_power add.commute)
  then have "(real (length ticks) + 1) / 2 ^ 53 \<le> 2 ^ 52 / 2 ^ 53" by (rule divide_right_mono) simp
  then have b_half: "b \<le> 1 / 2" by (simp add: b_def)
  with bounds have half: "1 / 2 \<le> P" by linarith
  from bounds have "0 \<le> 1 - P" and "1 - P \<le> b" by simp_all
  then have "(1 - P) ^ 3 \<le> b ^ 3" by (intro power_mono) simp_all
  moreover have "0 \<le> (1 - P) ^ 3" using \<open>0 \<le> 1 - P\<close> by simp
  ultimately have e: "0 \<le> 1 - easeInOutCubic P" "1 - easeInOutCubic P \<le> 4 * b ^ 3"
    unfolding easeInOutCubic_near_1 [OF half] by simp_all
  have ne: "ticks \<noteq> []" using sum d by auto
  note st = Camera_updates_state [OF fl ne act fr to]
  have dist: "distance (cam_state (Camera_updates ticks c))
                = (1 - easeInOutCubic P) * distance f + easeInOutCubic P * distance g"
    and hgt: "height (cam_state (Camera_updates ticks c))
                = (1 - easeInOutCubic P) * height f + easeInOutCubic P * height g"
    and fv: "fov (cam_state (Camera_updates ticks c))
                = (1 - easeInOutCubic P) * fov f + easeInOutCubic P * fov g"
    unfolding P_def by (subst st, simp)+
  show "\<bar>distance (cam_state (Camera_updates ticks c)) - distance g\<bar>
            \<le> 4 * ((real (length ticks) + 1) / 2 ^ 53) ^ 3 * \<bar>distance f - distance g\<bar>
         \<and> \<bar>height (cam_state (Camera_updates ticks c)) - height g\<bar>
            \<le> 4 * ((real (length ticks) + 1) / 2 ^ 53) ^ 3 * \<bar>height f - height g\<bar>
         \<and> \<bar>fov (cam_state (Camera_updates ticks c)) - fov g\<bar>
            \<le> 4 * ((real (length ticks) + 1) / 2 ^ 53) ^ 3 * \<bar>fov f - fov g\<bar>"
    unfolding dist hgt fv b_def [symmetric] using blend_error [OF e] by blast
qed

text \<open>
  Every transition that \<open>Camera.setView\<close> starts is of the kind the next theorems are about:
  active, at progress 0, from the current parameters to the settings of the view.
\<close>

lemma setView_starts_transition:
  assumes "view \<in> set views" and "currentView c \<noteq> view"
  shows "active (transition (fst (Camera_setView view True c)))"
    and "progress (transition (fst (Camera_setView view True c))) = 0"
    and "tr_from (transition (fst (Camera_setView view True c))) = Some (cam_state c)"
    and "tr_to (transition (fst (Camera_setView view True c))) = viewSettings view"
    and "viewSettings view \<noteq> None"
    and "duration (transition (fst (Camera_setView view True c))) = duration (transition c)"
  using assms by (auto simp: Camera_setView_def views_def viewSettings_def)

lemma cockpit_transition_eq:
  "cockpit_transition =
     camera_ready\<lparr>transition := \<lparr>active = True, progress = 0,
                                  tr_from = Some \<lparr>distance = 5, height = 2, fov = 60\<rparr>,
                                  tr_to = Some \<lparr>distance = 0, height = 0.2, fov = 90\<rparr>,
                                  duration = 0.5\<rparr>,
                   currentView := ''cockpit''\<rparr>"
  by (simp add: cockpit_transition_def camera_ready_eq Camera_setView_def views_def
      viewSettings_def Camera_def)

text \<open>The rounded running sum over the five ticks: 0.1, 0.4, 0.7, 0.8999999999999999, 0.9999999999999999.\<close>

lemma five_ticks_sum:
  "sum_list (map snd five_ticks) = 1 / 2"
  by (simp add: five_ticks_def double_0_05_def double_0_1_def double_0_15_def)

lemma five_ticks_progress_1:
  "to_double (0 + to_double (double_0_05 / (1 / 2))) = 3602879701896397 / 36028797018963968"
  by (simp add: double_0_05_def to_double_binade [where n = 3] round_half_even_def)

lemma five_ticks_progress_2:
  "to_double (3602879701896397 / 36028797018963968 + to_double (double_0_15 / (1 / 2)))
     = 3602879701896397 / 9007199254740992"
  by (simp add: double_0_15_def to_double_binade [where n = 1] round_half_even_def)

lemma five_ticks_progress_3:
  "to_double (3602879701896397 / 9007199254740992 + to_double (double_0_15 / (1 / 2)))
     = 3152519739159347 / 4503599627370496"
  by (simp add: double_0_15_def to_double_binade [where n = 1] to_double_binade [where n = 0]
      round_half_even_def)

lemma five_ticks_progress_4:
  "to_double (3152519739159347 / 4503599627370496 + to_double (double_0_1 / (1 / 2)))
     = 2026619832316723 / 2251799813685248"
  by (simp add: double_0_1_def to_double_binade [where n = 2] to_double_binade [where n = 0]
      round_half_even_def)

lemma five_ticks_progress_5:
  "to_double (2026619832316723 / 2251799813685248 + to_double (double_0_05 / (1 / 2)))
     = 9007199254740991 / 9007199254740992"
  by (simp add: double_0_05_def to_double_binade [where n = 3] to_double_binade [where n = 0]
      round_half_even_def)

lemma five_ticks_progress:
  "progress_after 0 (1 / 2) (map snd five_ticks) = 9007199254740991 / 9007199254740992"
  "\<not> reaches_one 0 (1 / 2) (map snd five_ticks)"
  unfolding five_ticks_def list.map snd_conv progress_after.simps reaches_one.simps
    five_ticks_progress_1 five_ticks_progress_2 five_ticks_progress_3 five_ticks_progress_4
    five_ticks_progress_5
  by simp_all

lemma five_ticks_flying: "flying_ticks five_ticks"
  by (simp add: flying_ticks_def five_ticks_def cessna_at_origin_eq)

text \<open>
  C6, as the claim states it: once the ticks of active flight have accumulated exactly the
  duration of the transition, the transition has become inactive. It has not, for the
  transition to the cockpit view (duration 0.5) and ticks of 0.05, 0.15, 0.15, 0.1 and 0.05
  seconds: these five doubles add up to exactly one half, but the progress that
  \<open>Camera.update\<close> accumulates in double precision is 0.9999999999999999 after the last
  of them, below 1, and the transition is still active.
\<close>

theorem accumulated_duration_leaves_transition_active:
  "flying_ticks five_ticks
   \<and> sum_list (map snd five_ticks) = duration (transition cockpit_transition)
   \<and> active (transition (Camera_updates five_ticks cockpit_transition))
   \<and> progress (transition (Camera_updates five_ticks cockpit_transition))
       = 9007199254740991 / 9007199254740992"
proof -
  have a: "active (transition cockpit_transition)"
    and f: "tr_from (transition cockpit_transition) = Some \<lparr>distance = 5, height = 2, fov = 60\<rparr>"
    and g: "tr_to (transition cockpit_transition) = Some \<lparr>distance = 0, height = 0.2, fov = 90\<rparr>"
    and d: "duration (transition cockpit_transition) = 1 / 2"
    and p: "progress (transition cockpit_transition) = 0"
    by (simp_all add: cockpit_transition_eq)
  have "transition (Camera_updates five_ticks cockpit_transition)
          = (transition cockpit_transition)\<lparr>progress := 9007199254740991 / 9007199254740992\<rparr>"
    using Camera_updates_run [OF five_ticks_flying a f g]
    unfolding d p by (simp only: five_ticks_progress if_False)
  then show ?thesis using a by (simp add: five_ticks_flying five_ticks_sum d)
qed

text \<open>
  C6, amended. For an active transition (progress in [0, 1), from and to set, positive
  duration), with the quotient dt / duration and the sum progress + dt / duration each
  rounded to double precision:

  \<^item> a camera update in flight whose rounded sum stays below 1 makes that sum the progress,
    leaves the transition active, and sets distance, height and field of view to
    (1 - e) * from + e * to, where e is the eased progress;
  \<^item> a camera update in flight whose rounded sum is at least 1 sets the parameters to
    exactly those of the target view, makes the transition inactive and its progress 1;
  \<^item> the easing curve is 4 t^3 below one half and 1 - (-2 t + 2)^3 / 2 from there on;
  \<^item> over a run of in-flight ticks, if the rounded running sum reaches 1 at some tick, then
    afterwards the parameters are exactly those of the target view, the transition is
    inactive and its progress is 1;
  \<^item> if it reaches 1 at no tick, the transition is still active, its progress is the rounded
    running sum, and (after at least one tick) the parameters are the interpolation at the
    eased progress;
  \<^item> the rounded running sum does reach 1 when the tick durations add up to at least the
    part of the duration that is left and no quotient and no partial sum is changed by
    the rounding;
  \<^item> after n ticks whose durations add up to exactly the duration, the progress is at most
    1 and at least 1 - (n + 1) / 2^53, and, for n below 2^52, each of distance, height and
    field of view differs from the target's by at most 4 * ((n + 1) / 2^53)^3 times the
    difference between from and to.

  Tick durations are not negative.
\<close>

theorem transition_step_and_rounded_completion:
  fixes c :: camera_controller and f g :: view_params and a :: aircraft
    and dt t p d :: real and ticks :: "(aircraft \<times> real) list"
  defines "p \<equiv> progress (transition c)" and "d \<equiv> duration (transition c)"
  assumes act: "active (transition c)" and fr: "tr_from (transition c) = Some f"
    and to: "tr_to (transition c) = Some g" and dpos: "0 < d" and p0: "0 \<le> p"
    and below: "p < 1"
  shows "(isFlying (state a) \<and> group a \<noteq> None \<and> 0 \<le> dt
            \<and> to_double (p + to_double (dt / d)) < 1 \<longrightarrow>
          transition (fst (Camera_update a dt c))
            = (transition c)\<lparr>progress := to_double (p + to_double (dt / d))\<rparr>
          \<and> cam_state (fst (Camera_update a dt c))
            = \<lparr>distance = (1 - easeInOutCubic (to_double (p + to_double (dt / d)))) * distance f
                           + easeInOutCubic (to_double (p + to_double (dt / d))) * distance g,
               height = (1 - easeInOutCubic (to_double (p + to_double (dt / d)))) * height f
                         + easeInOutCubic (to_double (p + to_double (dt / d))) * height g,
               fov = (1 - easeInOutCubic (to_double (p + to_double (dt / d)))) * fov f
                      + easeInOutCubic (to_double (p + to_double (dt / d))) * fov g\<rparr>)
       \<and> (isFlying (state a) \<and> group a \<noteq> None \<and> 0 \<le> dt
            \<and> 1 \<le> to_double (p + to_double (dt / d)) \<longrightarrow>
          cam_state (fst (Camera_update a dt c)) = g
          \<and> transition (fst (Camera_update a dt c))
              = (transition c)\<lparr>active := False, progress := 1\<rparr>)
       \<and> easeInOutCubic t = (if t < 0.5 then 4 * t ^ 3 else 1 - (- 2 * t + 2) ^ 3 / 2)
       \<and> (flying_ticks ticks \<and> list_all (\<lambda>x. 0 \<le> x) (map snd ticks)
            \<and> reaches_one p d (map snd ticks) \<longrightarrow>
          cam_state (Camera_updates ticks c) = g
          \<and> \<not> active (transition (Camera_updates ticks c))
          \<and> progress (transition (Camera_updates ticks c)) = 1)
       \<and> (flying_ticks ticks \<and> list_all (\<lambda>x. 0 \<le> x) (map snd ticks)
            \<and> \<not> reaches_one p d (map snd ticks) \<longrightarrow>
          active (transition (Camera_updates ticks c))
          \<and> progress (transition (Camera_updates ticks c)) = progress_after p d (map snd ticks)
          \<and> (ticks \<noteq> [] \<longrightarrow>
             cam_state (Camera_updates ticks c)
               = \<lparr>distance = (1 - easeInOutCubic (progress_after p d (map snd ticks))) * distance f
                              + easeInOutCubic (progress_after p d (map snd ticks)) * distance g,
                  height = (1 - easeInOutCubic (progress_after p d (map snd ticks))) * height f
                            + easeInOutCubic (progress_after p d (map snd ticks)) * height g,
                  fov = (1 - easeInOutCubic (progress_after p d (map snd ticks))) * fov f
                         + easeInOutCubic (progress_after p d (map snd ticks)) * fov g\<rparr>))
       \<and> (list_all (\<lambda>x. 0 \<le> x) (map snd ticks) \<and> exact_sums p d (map snd ticks)
            \<and> 1 \<le> p + sum_list (map snd ticks) / d \<longrightarrow>
          reaches_one p d (map snd ticks))
       \<and> (flying_ticks ticks \<and> list_all (\<lambda>x. 0 \<le> x) (map snd ticks)
            \<and> sum_list (map snd ticks) = d \<longrightarrow>
          1 - (real (length ticks) + 1) / 2 ^ 53 \<le> progress (transition (Camera_updates ticks c))
          \<and> progress (transition (Camera_updates ticks c)) \<le> 1
          \<and> (length ticks < 2 ^ 52 \<longrightarrow>
             \<bar>distance (cam_state (Camera_updates ticks c)) - distance g\<bar>
                \<le> 4 * ((real (length ticks) + 1) / 2 ^ 53) ^ 3 * \<bar>distance f - distance g\<bar>
             \<and> \<bar>height (cam_state (Camera_updates ticks c)) - height g\<bar>
                \<le> 4 * ((real (length ticks) + 1) / 2 ^ 53) ^ 3 * \<bar>height f - height g\<bar>
             \<and> \<bar>fov (cam_state (Camera_updates ticks c)) - fov g\<bar>
                \<le> 4 * ((real (length ticks) + 1) / 2 ^ 53) ^ 3 * \<bar>fov f - fov g\<bar>))"
proof (intro conjI impI)
  assume h: "isFlying (state a) \<and> group a \<noteq> None \<and> 0 \<le> dt
             \<and> to_double (p + to_double (dt / d)) < 1"
  then have fl: "isFlying (state a)" "group a \<noteq> None" by simp_all
  note upd = Camera_update_active [OF fl act fr to, of dt]
  from h have lt: "progress_after (progress (transition c)) (duration (transition c)) [dt] < 1"
    by (simp add: p_def d_def)
  from upd(2) [OF lt]
  show tr: "transition (fst (Camera_update a dt c))
            = (transition c)\<lparr>progress := to_double (p + to_double (dt / d))\<rparr>"
    by (simp add: p_def d_def)
  from upd(3)
  show "cam_state (fst (Camera_update a dt c))
            = \<lparr>distance = (1 - easeInOutCubic (to_double (p + to_double (dt / d)))) * distance f
                           + easeInOutCubic (to_double (p + to_double (dt / d))) * distance g,
               height = (1 - easeInOutCubic (to_double (p + to_double (dt / d)))) * height f
                         + easeInOutCubic (to_double (p + to_double (dt / d))) * height g,
               fov = (1 - easeInOutCubic (to_double (p + to_double (dt / d)))) * fov f
                      + easeInOutCubic (to_double (p + to_double (dt / d))) * fov g\<rparr>"
    unfolding tr by simp
next
  assume h: "isFlying (state a) \<and> group a \<noteq> None \<and> 0 \<le> dt
             \<and> 1 \<le> to_double (p + to_double (dt / d))"
  then have fl: "isFlying (state a)" "group a \<noteq> None" by simp_all
  note upd = Camera_update_active [OF fl act fr to, of dt]
  from h have ge: "1 \<le> progress_after (progress (transition c)) (duration (transition c)) [dt]"
    by (simp add: p_def d_def)
  from upd(1) [OF ge] show "cam_state (fst (Camera_update a dt c)) = g"
    and "transition (fst (Camera_update a dt c)) = (transition c)\<lparr>active := False, progress := 1\<rparr>"
    by simp_all
next
  show "easeInOutCubic t = (if t < 0.5 then 4 * t ^ 3 else 1 - (- 2 * t + 2) ^ 3 / 2)"
    by (simp add: easeInOutCubic_def power3_eq_cube)
next
  assume h: "flying_ticks ticks \<and> list_all (\<lambda>x. 0 \<le> x) (map snd ticks)
             \<and> reaches_one p d (map snd ticks)"
  then have fl: "flying_ticks ticks" by simp
  from Camera_updates_run [OF fl act fr to] h
  have r: "cam_state (Camera_updates ticks c) = g
           \<and> transition (Camera_updates ticks c) = (transition c)\<lparr>active := False, progress := 1\<rparr>"
    by (simp add: p_def d_def)
  from r show "cam_state (Camera_updates ticks c) = g" by simp
  from r show "\<not> active (transition (Camera_updates ticks c))" by simp
  from r show "progress (transition (Camera_updates ticks c)) = 1" by simp
next
  assume h: "flying_ticks ticks \<and> list_all (\<lambda>x. 0 \<le> x) (map snd ticks)
             \<and> \<not> reaches_one p d (map snd ticks)"
  then have fl: "flying_ticks ticks" by simp
  from Camera_updates_run [OF fl act fr to] h
  have r: "transition (Camera_updates ticks c)
             = (transition c)\<lparr>progress := progress_after p d (map snd ticks)\<rparr>"
    by (simp add: p_def d_def)
  from r act show "active (transition (Camera_updates ticks c))" by simp
  from r show pr: "progress (transition (Camera_updates ticks c))
                     = progress_after p d (map snd ticks)" by simp
  assume ne: "ticks \<noteq> []"
  from Camera_updates_state [OF fl ne act fr to]
  show "cam_state (Camera_updates ticks c)
               = \<lparr>distance = (1 - easeInOutCubic (progress_after p d (map snd ticks))) * distance f
                              + easeInOutCubic (progress_after p d (map snd ticks)) * distance g,
                  height = (1 - easeInOutCubic (progress_after p d (map snd ticks))) * height f
                            + easeInOutCubic (progress_after p d (map snd ticks)) * height g,
                  fov = (1 - easeInOutCubic (progress_after p d (map snd ticks))) * fov f
                         + easeInOutCubic (progress_after p d (map snd ticks)) * fov g\<rparr>"
    unfolding pr by simp
next
  assume h: "list_all (\<lambda>x. 0 \<le> x) (map snd ticks) \<and> exact_sums p d (map snd ticks)
             \<and> 1 \<le> p + sum_list (map snd ticks) / d"
  with below show "reaches_one p d (map snd ticks)"
    by (intro exact_sums_reach_one) simp_all
next
  assume h: "flying_ticks ticks \<and> list_all (\<lambda>x. 0 \<le> x) (map snd ticks)
             \<and> sum_list (map snd ticks) = d"
  then have fl: "flying_ticks ticks" and nn: "list_all (\<lambda>x. 0 \<le> x) (map snd ticks)"
    and sum: "sum_list (map snd ticks) = duration (transition c)"
    by (simp_all add: d_def)
  note near = Camera_updates_near_completion
                [OF fl nn act fr to dpos [unfolded d_def] p0 [unfolded p_def]
                    below [unfolded p_def] sum]
  from near(1)
  show "1 - (real (length ticks) + 1) / 2 ^ 53 \<le> progress (transition (Camera_updates ticks c))" .
  from near(2) show "progress (transition (Camera_updates ticks c)) \<le> 1" .
  assume len: "length ticks < 2 ^ 52"
  note par = near(3) [OF len]
  from par show "\<bar>distance (cam_state (Camera_updates ticks c)) - distance g\<bar>
                \<le> 4 * ((real (length ticks) + 1) / 2 ^ 53) ^ 3 * \<bar>distance f - distance g\<bar>"
    by simp
  from par show "\<bar>height (cam_state (Camera_updates ticks c)) - height g\<bar>
                \<le> 4 * ((real (length ticks) + 1) / 2 ^ 53) ^ 3 * \<bar>height f - height g\<bar>"
    by simp
  from par show "\<bar>fov (cam_state (Camera_updates ticks c)) - fov g\<bar>
                \<le> 4 * ((real (length ticks) + 1) / 2 ^ 53) ^ 3 * \<bar>fov f - fov g\<bar>"
    by simp
qed

theorem transition_step_and_rounded_completion_witness:
  "active (transition cockpit_transition)
   \<and> progress (transition cockpit_transition) = 0
   \<and> duration (transition cockpit_transition) = 1 / 2
   \<and> isFlying (state cessna_at_origin)
   \<and> group cessna_at_origin \<noteq> None
   \<and> progress (transition (fst (Camera_update cessna_at_origin (1 / 8) cockpit_transition))) = 1 / 4
   \<and> easeInOutCubic (1 / 4) = 1 / 16
   \<and> cam_state (fst (Camera_update cessna_at_origin (1 / 8) cockpit_transition))
        = \<lparr>distance = 75 / 16, height = 151 / 80, fov = 495 / 8\<rparr>
   \<and> cam_state (fst (Camera_update cessna_at_origin (1 / 2) cockpit_transition))
        = \<lparr>distance = 0, height = 0.2, fov = 90\<rparr>
   \<and> flying_ticks two_ticks
   \<and> exact_sums 0 (1 / 2) (map snd two_ticks)
   \<and> sum_list (map snd two_ticks) = 1 / 2
   \<and> reaches_one 0 (1 / 2) (map snd two_ticks)
   \<and> cam_state (Camera_updates two_ticks cockpit_transition)
        = \<lparr>distance = 0, height = 0.2, fov = 90\<rparr>
   \<and> \<not> active (transition (Camera_updates two_ticks cockpit_transition))
   \<and> \<not> reaches_one 0 (1 / 2) [1 / 8]
   \<and> active (transition (Camera_updates [(cessna_at_origin, 1 / 8)] cockpit_transition))
   \<and> cam_state (Camera_updates [(cessna_at_origin, 1 / 8)] cockpit_transition)
        = \<lparr>distance = 75 / 16, height = 151 / 80, fov = 495 / 8\<rparr>
   \<and> flying_ticks five_ticks
   \<and> sum_list (map snd five_ticks) = 1 / 2
   \<and> 1 - 6 / 2 ^ 53 \<le> progress (transition (Camera_updates five_ticks cockpit_transition))
   \<and> \<bar>distance (cam_state (Camera_updates five_ticks cockpit_transition)) - 0\<bar>
        \<le> 4 * (6 / 2 ^ 53) ^ 3 * 5"
proof -
  have a: "active (transition cockpit_transition)"
    and f: "tr_from (transition cockpit_transition) = Some \<lparr>distance = 5, height = 2, fov = 60\<rparr>"
    and g: "tr_to (transition cockpit_transition) = Some \<lparr>distance = 0, height = 0.2, fov = 90\<rparr>"
    and d: "duration (transition cockpit_transition) = 1 / 2"
    and p: "progress (transition cockpit_transition) = 0"
    by (simp_all add: cockpit_transition_eq)
  have b: "0 < duration (transition cockpit_transition)"
    "0 \<le> progress (transition cockpit_transition)" "progress (transition cockpit_transition) < 1"
    by (simp_all add: d p)
  have fa: "isFlying (state cessna_at_origin)" "group cessna_at_origin \<noteq> None"
    by (simp_all add: cessna_at_origin_eq)
  have fl2: "flying_ticks two_ticks"
    by (simp add: flying_ticks_def two_ticks_def cessna_at_origin_eq)
  have fl1: "flying_ticks [(cessna_at_origin, 1 / 8)]"
    by (simp add: flying_ticks_def cessna_at_origin_eq)
  have ex: "exact_sums 0 (1 / 2) (map snd two_ticks)"
    by (simp add: two_ticks_def to_double_half to_double_one)
  have s: "sum_list (map snd two_ticks) = 1 / 2" by (simp add: two_ticks_def)
  have n2: "list_all (\<lambda>x. 0 \<le> x) (map snd two_ticks)" by (simp add: two_ticks_def)
  have e: "easeInOutCubic (1 / 4) = 1 / 16" by (simp add: easeInOutCubic_def)
  have nr: "\<not> reaches_one 0 (1 / 2) [1 / 8]" by (simp add: to_double_quarter)
  note th1 = transition_step_and_rounded_completion
              [where c = cockpit_transition and f = "\<lparr>distance = 5, height = 2, fov = 60\<rparr>"
                 and g = "\<lparr>distance = 0, height = 0.2, fov = 90\<rparr>" and a = cessna_at_origin
                 and dt = "1 / 8" and t = 0 and ticks = two_ticks, OF a f g b]
  note th2 = transition_step_and_rounded_completion
              [where c = cockpit_transition and f = "\<lparr>distance = 5, height = 2, fov = 60\<rparr>"
                 and g = "\<lparr>distance = 0, height = 0.2, fov = 90\<rparr>" and a = cessna_at_origin
                 and dt = "1 / 2" and t = 0 and ticks = "[(cessna_at_origin, 1 / 8)]",
               OF a f g b]
  from th1 [THEN conjunct1] fa
  have step: "progress (transition (fst (Camera_update cessna_at_origin (1 / 8) cockpit_transition)))
        = 1 / 4
      \<and> cam_state (fst (Camera_update cessna_at_origin (1 / 8) cockpit_transition))
        = \<lparr>distance = 75 / 16, height = 151 / 80, fov = 495 / 8\<rparr>"
    by (simp add: d p to_double_quarter e)
  from th2 [THEN conjunct2, THEN conjunct1] fa
  have full: "cam_state (fst (Camera_update cessna_at_origin (1 / 2) cockpit_transition))
        = \<lparr>distance = 0, height = 0.2, fov = 90\<rparr>"
    by (simp add: d p to_double_one)
  from th1 [THEN conjunct2, THEN conjunct2, THEN conjunct2, THEN conjunct2, THEN conjunct2] n2 ex s
  have r: "reaches_one 0 (1 / 2) (map snd two_ticks)"
    by (simp add: d p)
  from th1 [THEN conjunct2, THEN conjunct2, THEN conjunct2, THEN conjunct1] fl2 n2 r
  have run: "cam_state (Camera_updates two_ticks cockpit_transition)
        = \<lparr>distance = 0, height = 0.2, fov = 90\<rparr>
      \<and> \<not> active (transition (Camera_updates two_ticks cockpit_transition))"
    by (simp add: d p)
  from th2 [THEN conjunct2, THEN conjunct2, THEN conjunct2, THEN conjunct2, THEN conjunct1] fl1 nr
  have part: "active (transition (Camera_updates [(cessna_at_origin, 1 / 8)] cockpit_transition))
      \<and> cam_state (Camera_updates [(cessna_at_origin, 1 / 8)] cockpit_transition)
        = \<lparr>distance = 75 / 16, height = 151 / 80, fov = 495 / 8\<rparr>"
    by (simp add: d p to_double_quarter e)
  have n5: "list_all (\<lambda>x. 0 \<le> x) (map snd five_ticks)"
    by (simp add: five_ticks_def double_0_05_def double_0_1_def double_0_15_def)
  have l5: "length five_ticks = 5" by (simp add: five_ticks_def)
  note th3 = transition_step_and_rounded_completion
              [where c = cockpit_transition and f = "\<lparr>distance = 5, height = 2, fov = 60\<rparr>"
                 and g = "\<lparr>distance = 0, height = 0.2, fov = 90\<rparr>" and a = cessna_at_origin
                 and dt = "1 / 2" and t = 0 and ticks = five_ticks, OF a f g b]
  from th3 [THEN conjunct2, THEN conjunct2, THEN conjunct2, THEN conjunct2, THEN conjunct2,
            THEN conjunct2] five_ticks_flying n5 five_ticks_sum
  have near: "1 - 6 / 2 ^ 53 \<le> progress (transition (Camera_updates five_ticks cockpit_transition))
      \<and> \<bar>distance (cam_state (Camera_updates five_ticks cockpit_transition)) - 0\<bar>
           \<le> 4 * (6 / 2 ^ 53) ^ 3 * 5"
    by (simp add: d l5)
  from a p d fa step e full fl2 ex s r run nr part five_ticks_flying five_ticks_sum near
  show ?thesis by simp
qed

section \<open>Earth: the day/night overlay\<close>

lemma updateDayNight_step:
  "nightLights e = Some v \<Longrightarrow>
   Earth_updateDayNight utc pos mode e
     = e\<lparr>nightLights := Some (v + (nightOpacity utc pos mode - v) * 0.02)\<rparr>"
  by (simp add: Earth_updateDayNight_def)

lemma updateDayNight_absent:
  "nightLights e = None \<Longrightarrow> Earth_updateDayNight utc pos mode e = e"
  by (simp add: Earth_updateDayNight_def)

lemma updateDayNight_iterated:
  "nightLights e = Some v \<Longrightarrow>
   nightLights ((Earth_updateDayNight utc pos mode ^^ n) e)
     = Some (nightOpacity utc pos mode + (v - nightOpacity utc pos mode) * (49 / 50) ^ n)"
proof (induction n)
  case 0
  then show ?case by simp
next
  case (Suc n)
  define T where "T = nightOpacity utc pos mode"
  define e' where "e' = (Earth_updateDayNight utc pos mode ^^ n) e"
  from Suc have ih: "nightLights e' = Some (T + (v - T) * (49 / 50) ^ n)"
    by (simp add: T_def e'_def)
  have "nightLights (Earth_updateDayNight utc pos mode e')
      = Some (T + (v - T) * (49 / 50) ^ n + (T - (T + (v - T) * (49 / 50) ^ n)) * 0.02)"
    by (simp add: updateDayNight_step [OF ih] T_def)
  also have "T + (v - T) * (49 / 50) ^ n + (T - (T + (v - T) * (49 / 50) ^ n)) * 0.02
      = T + (v - T) * (49 / 50) ^ Suc n"
  proof -
    define w where "w = (v - T) * (49 / 50) ^ n"
    have "(v - T) * (49 / 50) ^ Suc n = w * (49 / 50)" by (simp add: w_def)
    moreover have "T + w + (T - (T + w)) * 0.02 = T + w * (49 / 50)" by simp
    ultimately show ?thesis by (simp only: w_def)
  qed
  finally show ?case by (simp add: T_def e'_def)
qed

lemma approach_limit: "(\<lambda>n. T + (v - T) * (49 / 50 :: real) ^ n) \<longlonglongrightarrow> T"
proof -
  have "(\<lambda>n. (49 / 50 :: real) ^ n) \<longlonglongrightarrow> 0"
    by (rule LIMSEQ_realpow_zero) simp_all
  then have "(\<lambda>n. (v - T) * (49 / 50 :: real) ^ n) \<longlonglongrightarrow> 0"
    by (rule tendsto_mult_right_zero)
  then have "(\<lambda>n. T + (v - T) * (49 / 50 :: real) ^ n) \<longlonglongrightarrow> T + 0"
    by (intro tendsto_add tendsto_const)
  then show ?thesis by simp
qed

lemma updateDayNight_converges:
  "nightLights e = Some v \<Longrightarrow>
   (\<lambda>n. the (nightLights ((Earth_updateDayNight utc pos mode ^^ n) e)))
      \<longlonglongrightarrow> nightOpacity utc pos mode"
  by (simp add: updateDayNight_iterated approach_limit)

lemma js_rem_pos: "0 < a \<Longrightarrow> 0 < b \<Longrightarrow> js_rem a b = a - b * of_int \<lfloor>a / b\<rfloor>"
  by (simp add: js_rem_def)

lemma nightOpacity_auto:
  fixes utc :: real and pos :: latlon
  assumes "mode \<noteq> ''night''" and "mode \<noteq> ''day''"
  defines "h \<equiv> Earth_getLocalHour utc (lon pos)"
  shows "(h < 6 \<or> 19 < h \<longrightarrow> nightOpacity utc pos mode = 1)
       \<and> (6 \<le> h \<and> h \<le> 7 \<longrightarrow> nightOpacity utc pos mode = 7 - h)
       \<and> (7 < h \<and> h < 18 \<longrightarrow> nightOpacity utc pos mode = 0)
       \<and> (18 \<le> h \<and> h \<le> 19 \<longrightarrow> nightOpacity utc pos mode = h - 18)"
  using assms(1,2) by (auto simp: nightOpacity_def Let_def h_def)

lemma getLocalHour_range:
  assumes "0 \<le> utc" and "- 180 < longitude"
  shows "Earth_getLocalHour utc longitude
           = (utc + longitude / 15 + 24) - 24 * of_int \<lfloor>(utc + longitude / 15 + 24) / 24\<rfloor>
         \<and> 0 \<le> Earth_getLocalHour utc longitude \<and> Earth_getLocalHour utc longitude < 24"
proof -
  have pos: "0 < utc + longitude / 15 + 24" using assms by simp
  then have "js_rem (utc + longitude / 15 + 24) 24
      = (utc + longitude / 15 + 24) - 24 * of_int \<lfloor>(utc + longitude / 15 + 24) / 24\<rfloor>"
    by (simp add: js_rem_pos)
  moreover have "0 \<le> js_rem (utc + longitude / 15 + 24) 24
      \<and> js_rem (utc + longitude / 15 + 24) 24 < 24"
    using pos by (intro js_rem_nonneg) simp_all
  ultimately show ?thesis by (simp add: Earth_getLocalHour_def)
qed

text \<open>
  C5, as the claim states it, makes the target 1.0 whenever the local hour is outside
  [7, 18]. At UTC 6:30 on the prime meridian the local hour is 6.5, outside [7, 18], and the
  target is 0.5: the dawn ramp already applies.
\<close>

theorem nightOpacity_ramp_outside_7_18:
  "\<not> (7 \<le> Earth_getLocalHour (13 / 2) 0 \<and> Earth_getLocalHour (13 / 2) 0 \<le> 18)
   \<and> nightOpacity (13 / 2) \<lparr>lat = 0, lon = 0, geo_altitude = 2\<rparr> ''auto'' = 1 / 2"
  by (simp add: nightOpacity_def Earth_getLocalHour_def js_rem_def Let_def)

text \<open>
  C5, amended. Without a night-lights layer a call does nothing. With it, a call computes
  the local hour as the
  remainder of UTC + longitude / 15 + 24 by 24 (a value in [0, 24) for a non-negative clock
  reading and a longitude above -180), and a target that is 1 in mode night, 0 in mode day,
  and otherwise 1 outside [6, 19], 0 inside (7, 18), 7 - h on the dawn window [6, 7] and
  h - 18 on the dusk window [18, 19]. The stored opacity moves by 0.02 of its distance to the
  target, so it never reaches a target it was not already at, and under constant arguments
  it converges to the target.
\<close>

theorem updateDayNight_target_and_approach:
  fixes utc :: real and pos :: latlon and mode :: string
  assumes "nightLights e = Some v"
  defines "h \<equiv> Earth_getLocalHour utc (lon pos)" and "T \<equiv> nightOpacity utc pos mode"
  shows "h = js_rem (utc + lon pos / 15 + 24) 24
       \<and> (0 \<le> utc \<and> - 180 < lon pos \<longrightarrow>
            h = (utc + lon pos / 15 + 24) - 24 * of_int \<lfloor>(utc + lon pos / 15 + 24) / 24\<rfloor>
            \<and> 0 \<le> h \<and> h < 24)
       \<and> (mode = ''night'' \<longrightarrow> T = 1)
       \<and> (mode = ''day'' \<longrightarrow> T = 0)
       \<and> (mode \<noteq> ''night'' \<and> mode \<noteq> ''day'' \<longrightarrow>
            (h < 6 \<or> 19 < h \<longrightarrow> T = 1) \<and> (6 \<le> h \<and> h \<le> 7 \<longrightarrow> T = 7 - h)
            \<and> (7 < h \<and> h < 18 \<longrightarrow> T = 0) \<and> (18 \<le> h \<and> h \<le> 19 \<longrightarrow> T = h - 18))
       \<and> nightLights (Earth_updateDayNight utc pos mode e) = Some (v + (T - v) * 0.02)
       \<and> (v \<noteq> T \<longrightarrow> nightLights (Earth_updateDayNight utc pos mode e) \<noteq> Some T)
       \<and> (\<lambda>n. the (nightLights ((Earth_updateDayNight utc pos mode ^^ n) e))) \<longlonglongrightarrow> T
       \<and> (nightLights e0 = None \<longrightarrow> Earth_updateDayNight utc pos mode e0 = e0)"
proof -
  have 1: "h = js_rem (utc + lon pos / 15 + 24) 24" by (simp add: h_def Earth_getLocalHour_def)
  have 2: "0 \<le> utc \<and> - 180 < lon pos \<longrightarrow>
            h = (utc + lon pos / 15 + 24) - 24 * of_int \<lfloor>(utc + lon pos / 15 + 24) / 24\<rfloor>
            \<and> 0 \<le> h \<and> h < 24"
    unfolding h_def using getLocalHour_range [of utc "lon pos"] by blast
  have 3: "mode = ''night'' \<longrightarrow> T = 1" by (simp add: T_def nightOpacity_def)
  have 4: "mode = ''day'' \<longrightarrow> T = 0" by (simp add: T_def nightOpacity_def)
  have 5: "mode \<noteq> ''night'' \<and> mode \<noteq> ''day'' \<longrightarrow>
            (h < 6 \<or> 19 < h \<longrightarrow> T = 1) \<and> (6 \<le> h \<and> h \<le> 7 \<longrightarrow> T = 7 - h)
            \<and> (7 < h \<and> h < 18 \<longrightarrow> T = 0) \<and> (18 \<le> h \<and> h \<le> 19 \<longrightarrow> T = h - 18)"
    unfolding h_def T_def using nightOpacity_auto [of mode utc pos] by blast
  have 6: "nightLights (Earth_updateDayNight utc pos mode e) = Some (v + (T - v) * 0.02)"
    using assms(1) by (simp add: updateDayNight_step T_def)
  have "v + (T - v) * 0.02 = T \<longrightarrow> v = T" by (simp add: field_simps)
  then have 7: "v \<noteq> T \<longrightarrow> nightLights (Earth_updateDayNight utc pos mode e) \<noteq> Some T"
    unfolding 6 by blast
  have 8: "(\<lambda>n. the (nightLights ((Earth_updateDayNight utc pos mode ^^ n) e))) \<longlonglongrightarrow> T"
    unfolding T_def using assms(1) by (rule updateDayNight_converges)
  have 9: "nightLights e0 = None \<longrightarrow> Earth_updateDayNight utc pos mode e0 = e0"
    by (simp add: updateDayNight_absent)
  from 1 2 3 4 5 6 7 8 9 show ?thesis by blast
qed

theorem updateDayNight_target_and_approach_witness:
  "nightLights earth_at_night = Some 1
   \<and> Earth_getLocalHour 12 (lon origin_position) = 12
   \<and> nightOpacity 12 origin_position ''auto'' = 0
   \<and> nightLights (Earth_updateDayNight 12 origin_position ''auto'' earth_at_night) = Some (49 / 50)
   \<and> (\<lambda>n. the (nightLights ((Earth_updateDayNight 12 origin_position ''auto'' ^^ n) earth_at_night)))
        \<longlonglongrightarrow> 0
   \<and> nightLights \<lparr>nightLights = None\<rparr> = None
   \<and> Earth_updateDayNight 12 origin_position ''auto'' \<lparr>nightLights = None\<rparr>
        = \<lparr>nightLights = None\<rparr>"
proof -
  have n: "nightLights earth_at_night = Some 1" by (simp add: earth_at_night_def)
  have h: "Earth_getLocalHour 12 (lon origin_position) = 12"
    by (simp add: origin_position_def Earth_getLocalHour_def js_rem_def)
  have m: "''auto'' \<noteq> ''night'' \<and> ''auto'' \<noteq> ''day''" by simp
  note th = updateDayNight_target_and_approach
              [OF n, where utc = 12 and pos = origin_position and mode = "''auto''"
                 and ?e0.0 = "\<lparr>nightLights = None\<rparr>"]
  from th h m have T: "nightOpacity 12 origin_position ''auto'' = 0" by simp
  from th n h T show ?thesis by simp
qed

text \<open>
  Scenario B: at local hour 12 in mode auto the opacity converges to 0, at local hour 0 to 1,
  and in mode day to 0 at any hour.
\<close>

lemma scenario_B:
  "nightLights e = Some v \<Longrightarrow> Earth_getLocalHour utc (lon pos) = 12 \<Longrightarrow>
     (\<lambda>n. the (nightLights ((Earth_updateDayNight utc pos ''auto'' ^^ n) e))) \<longlonglongrightarrow> 0"
  "nightLights e = Some v \<Longrightarrow> Earth_getLocalHour utc (lon pos) = 0 \<Longrightarrow>
     (\<lambda>n. the (nightLights ((Earth_updateDayNight utc pos ''auto'' ^^ n) e))) \<longlonglongrightarrow> 1"
  "nightLights e = Some v \<Longrightarrow>
     (\<lambda>n. the (nightLights ((Earth_updateDayNight utc pos ''day'' ^^ n) e))) \<longlonglongrightarrow> 0"
proof -
  assume n: "nightLights e = Some v"
  show "(\<lambda>n. the (nightLights ((Earth_updateDayNight utc pos ''day'' ^^ n) e))) \<longlonglongrightarrow> 0"
    using updateDayNight_converges [OF n, of utc pos "''day''"] by (simp add: nightOpacity_def)
  {
    assume "Earth_getLocalHour utc (lon pos) = 12"
    then have "nightOpacity utc pos ''auto'' = 0" by (simp add: nightOpacity_def Let_def)
    then show "(\<lambda>n. the (nightLights ((Earth_updateDayNight utc pos ''auto'' ^^ n) e))) \<longlonglongrightarrow> 0"
      using updateDayNight_converges [OF n, of utc pos "''auto''"] by simp
  }
  {
    assume "Earth_getLocalHour utc (lon pos) = 0"
    then have "nightOpacity utc pos ''auto'' = 1" by (simp add: nightOpacity_def Let_def)
    then show "(\<lambda>n. the (nightLights ((Earth_updateDayNight utc pos ''auto'' ^^ n) e))) \<longlonglongrightarrow> 1"
      using updateDayNight_converges [OF n, of utc pos "''auto''"] by simp
  }
qed

section \<open>Earth: the coordinate transforms\<close>

lemma cos_neg_upper: assumes "pi / 2 < t" "t < 3 * pi / 2" shows "cos t < 0"
proof -
  have "0 < cos (t - pi)" using assms by (intro cos_gt_zero_pi) simp_all
  then show ?thesis by simp
qed

lemma atan2_polar:
  assumes k: "0 < k" and lo: "- pi < t" and hi: "t \<le> pi"
  shows "atan2 (k * sin t) (k * cos t) = t"
proof -
  consider (A) "- (pi / 2) < t" "t < pi / 2" | (B) "t = pi / 2" | (C) "t = - (pi / 2)"
    | (D) "pi / 2 < t" | (E) "t < - (pi / 2)"
    by linarith
  then show ?thesis
  proof cases
    case A
    then have c: "0 < cos t" by (intro cos_gt_zero_pi) simp_all
    have "k * sin t / (k * cos t) = tan t" using k by (simp add: tan_def)
    moreover have "arctan (tan t) = t" using A by (intro arctan_tan) simp_all
    ultimately show ?thesis using c k by (simp add: atan2_def)
  next
    case B
    show ?thesis unfolding B using k by (simp add: atan2_def)
  next
    case C
    show ?thesis unfolding C using k by (simp add: atan2_def)
  next
    case D
    have c: "cos t < 0" using D hi pi_gt_zero by (intro cos_neg_upper) linarith+
    have s: "0 \<le> sin t" using D hi pi_gt_zero by (intro sin_ge_zero) linarith+
    have "tan t = tan (t - pi)" using tan_periodic_pi [of "t - pi"] by simp
    moreover have "arctan (tan (t - pi)) = t - pi"
      using D hi by (intro arctan_tan) linarith+
    moreover have "k * sin t / (k * cos t) = tan t" using k by (simp add: tan_def)
    ultimately have "arctan (k * sin t / (k * cos t)) = t - pi" by simp
    moreover have "k * cos t < 0" using c k by (simp add: mult_pos_neg)
    moreover have "0 \<le> k * sin t" using s k by simp
    ultimately show ?thesis by (simp add: atan2_def)
  next
    case E
    have c: "cos t < 0"
    proof -
      have "cos (- t) < 0" using E lo pi_gt_zero by (intro cos_neg_upper) linarith+
      then show ?thesis by simp
    qed
    have s: "sin t < 0"
    proof -
      have "0 < sin (- t)" using E lo pi_gt_zero by (intro sin_gt_zero) linarith+
      then show ?thesis by simp
    qed
    have "tan t = tan (t + pi)" by simp
    moreover have "arctan (tan (t + pi)) = t + pi"
      using E lo by (intro arctan_tan) linarith+
    moreover have "k * sin t / (k * cos t) = tan t" using k by (simp add: tan_def)
    ultimately have "arctan (k * sin t / (k * cos t)) = t + pi" by simp
    moreover have "k * cos t < 0" using c k by (simp add: mult_pos_neg)
    moreover have "k * sin t < 0" using s k by (simp add: mult_pos_neg)
    ultimately show ?thesis by (simp add: atan2_def)
  qed
qed


lemma vlength_spherical:
  assumes "0 \<le> r"
  shows "vlength (Vector3 (- r * sin p * cos t) (r * cos p) (r * sin p * sin t)) = r"
proof -
  have h1: "cos t * cos t + sin t * sin t = 1"
    using sin_cos_squared_add2 [of t] by (simp add: power2_eq_square)
  have h2: "sin p * sin p + cos p * cos p = 1"
    using sin_cos_squared_add [of p] by (simp add: power2_eq_square)
  have "(- r * sin p * cos t) * (- r * sin p * cos t) + (r * cos p) * (r * cos p)
        + (r * sin p * sin t) * (r * sin p * sin t) = r * r"
    using h1 h2 by algebra
  then show ?thesis using assms by (simp add: vlength_def Vector3_def)
qed

lemma degrees_mono: "a < d \<Longrightarrow> a * (pi / 180) < d * (pi / 180)"
  by (rule mult_strict_right_mono) simp_all

lemma degrees_mono_le: "a \<le> d \<Longrightarrow> a * (pi / 180) \<le> d * (pi / 180)"
  by (rule mult_right_mono) simp_all

lemma lon_normalised:
  assumes "- 180 < d" and "d \<le> 180"
  shows "js_rem (d - 180 + 360) 360 - 180 = (if d = 180 then - 180 else d)"
proof (cases "d = 180")
  case True
  then show ?thesis by (simp add: js_rem_def)
next
  case False
  with assms have pos: "0 < d + 180" and lt: "d + 180 < 360" by simp_all
  then have "\<lfloor>(d + 180) / 360\<rfloor> = 0" by (simp add: floor_eq_iff)
  then have "js_rem (d + 180) 360 = d + 180" using pos by (simp add: js_rem_def)
  moreover have "d - 180 + 360 = d + 180" by simp
  ultimately show ?thesis using False by (simp add: add.commute)
qed

text \<open>
  Away from the poles the reverse transform returns the latitude and the altitude of the
  forward transform, and a longitude that is off by 180 degrees.
\<close>

lemma vector3ToLatLon_latLonToVector3:
  assumes la: "- 90 < la" "la < 90" and lo: "- 180 < lo" "lo \<le> 180" and alt: "0 \<le> alt"
  shows "Earth_vector3ToLatLon (Earth_latLonToVector3 la lo alt)
         = \<lparr>lat = la, lon = (if lo < 0 then lo + 180 else lo - 180), geo_altitude = alt\<rparr>"
proof -
  define p where "p = (90 - la) * (pi / 180)"
  define t where "t = (lo + 180) * (pi / 180)"
  define r where "r = sceneRadius + alt"
  define v where "v = Vector3 (- r * sin p * cos t) (r * cos p) (r * sin p * sin t)"
  have r: "0 < r" using alt by (simp add: r_def sceneRadius_def)
  have p: "0 < p" "p < pi"
    using degrees_mono [of 0 "90 - la"] degrees_mono [of "90 - la" 180] la by (simp_all add: p_def)
  have t: "0 < t" "t \<le> 2 * pi"
    using degrees_mono [of 0 "lo + 180"] degrees_mono_le [of "lo + 180" 360] lo
    by (simp_all add: t_def)
  have sp: "0 < sin p" using p by (rule sin_gt_zero)
  have fwd: "Earth_latLonToVector3 la lo alt = v"
    by (simp only: Earth_latLonToVector3_def Let_def p_def t_def r_def v_def)
  have len: "vlength v = r" unfolding v_def using r by (intro vlength_spherical) simp
  have comps: "vx v = - r * sin p * cos t" "vy v = r * cos p" "vz v = r * sin p * sin t"
    by (simp_all add: v_def Vector3_def)
  have lat_eq: "90 - arccos (vy v / r) * (180 / pi) = la"
  proof -
    have "vy v / r = cos p" using r by (simp add: comps)
    moreover have "arccos (cos p) = p" using p by (intro arccos_cos) simp_all
    ultimately show ?thesis by (simp add: p_def)
  qed
  have k: "0 < r * sin p" using r sp by simp
  have at: "atan2 (vz v) (- vx v) = (if t \<le> pi then t else t - 2 * pi)"
  proof (cases "t \<le> pi")
    case True
    have "atan2 (r * sin p * sin t) (r * sin p * cos t) = t"
      using k t True by (intro atan2_polar) simp_all
    then show ?thesis using True by (simp add: comps)
  next
    case False
    have "atan2 (r * sin p * sin (t - 2 * pi)) (r * sin p * cos (t - 2 * pi)) = t - 2 * pi"
      using k t False by (intro atan2_polar) simp_all
    moreover have "sin (t - 2 * pi) = sin t" "cos (t - 2 * pi) = cos t"
      by (simp_all add: sin_diff cos_diff)
    ultimately show ?thesis using False by (simp add: comps)
  qed
  have deg: "atan2 (vz v) (- vx v) * (180 / pi) = (if lo \<le> 0 then lo + 180 else lo - 180)"
  proof (cases "lo \<le> 0")
    case True
    then have "t \<le> pi" using degrees_mono_le [of "lo + 180" 180] by (simp add: t_def)
    then show ?thesis using True by (simp add: at t_def)
  next
    case False
    then have "\<not> t \<le> pi" using degrees_mono [of 180 "lo + 180"] by (simp add: t_def)
    then show ?thesis using False by (simp add: at t_def field_simps)
  qed
  have lon_eq: "js_rem (atan2 (vz v) (- vx v) * (180 / pi) - 180 + 360) 360 - 180
        = (if lo < 0 then lo + 180 else lo - 180)"
  proof (cases "lo \<le> 0")
    case True
    then show ?thesis
      unfolding deg using lo lon_normalised [of "lo + 180"] by (auto split: if_splits)
  next
    case False
    then show ?thesis
      unfolding deg using lo lon_normalised [of "lo - 180"] by (auto split: if_splits)
  qed
  show ?thesis
    unfolding fwd Earth_vector3ToLatLon_def Let_def len
    using lat_eq lon_eq by (simp add: r_def)
qed

lemma latLon_east: "Earth_latLonToVector3 0 90 0 = Vector3 0 0 (- 100)"
proof -
  have a: "(90::real) * (pi / 180) = pi / 2" by simp
  have b: "(90 + 180 :: real) * (pi / 180) = 3 / 2 * pi" by simp
  show ?thesis
    unfolding Earth_latLonToVector3_def Let_def sceneRadius_def
    by (simp only: diff_zero a b sin_3over2_pi cos_3over2_pi sin_pi_half cos_pi_half) simp
qed

lemma latLon_west:
  "Earth_vector3ToLatLon (Vector3 0 0 (- 100)) = \<lparr>lat = 0, lon = - 90, geo_altitude = 0\<rparr>"
  by (simp add: Earth_vector3ToLatLon_def Let_def vlength_def Vector3_def sceneRadius_def
      atan2_def js_rem_def)

text \<open>
  C1. The reverse transform is meant to return the latitude, longitude and altitude the
  forward transform was given. For latitude 0, longitude 90, altitude 0 it returns
  longitude -90: the final normalisation subtracts 180 once too often.
\<close>

theorem roundtrip_longitude_off_by_180:
  "Earth_vector3ToLatLon (Earth_latLonToVector3 0 90 0) = \<lparr>lat = 0, lon = - 90, geo_altitude = 0\<rparr>"
  by (simp only: latLon_east latLon_west)

section \<open>The frame: who writes the aircraft\<close>

lemma frame_Camera_update_aircraft: "w_aircraft (fst (frame_Camera_update dt w)) = w_aircraft w"
  by (simp add: frame_Camera_update_def split: prod.splits)

lemma frame_updateDayNight_aircraft:
  "w_aircraft (fst (frame_updateDayNight utc mode w)) = w_aircraft w"
  by (simp add: frame_updateDayNight_def Let_def)

lemma frame_Aircraft_update_aircraft:
  "w_aircraft (fst (frame_Aircraft_update dt w)) = fst (Aircraft_update dt (w_aircraft w))"
  by (simp add: frame_Aircraft_update_def split: prod.splits)

lemma andThen_preserves:
  assumes "\<And>x. P (fst (f x)) = P x"
  shows "P (fst (andThen r f)) = P (fst r)"
  using andThen_cases [of r f] assms by auto

lemma keeps_bind:
  "keeps n W P m \<Longrightarrow> (\<And>x. P x \<Longrightarrow> keeps n W Q (f x)) \<Longrightarrow> keeps n W Q (State_Monad.bind m f)"
  by (auto simp: keeps_def split: prod.splits)

lemma keeps_return: "Q x \<Longrightarrow> keeps n W Q (State_Monad.return x)"
  by (simp add: keeps_def)

lemma keeps_if: "keeps n W Q a \<Longrightarrow> keeps n W Q b \<Longrightarrow> keeps n W Q (if c then a else b)"
  by simp

lemma keeps_case_option:
  "keeps n W Q a \<Longrightarrow> (\<And>m. keeps n W Q (b m)) \<Longrightarrow>
   keeps n W Q (case mo of None \<Rightarrow> a | Some m \<Rightarrow> b m)"
  by (cases mo) simp_all

lemma keeps_read: "keeps n W (\<lambda>_. True) (v_read r)"
  by (simp add: keeps_def v_read_def)

lemma keeps_write: "n \<le> r \<or> r \<in> W \<Longrightarrow> keeps n W (\<lambda>_. True) (v_write r v)"
  by (auto simp: keeps_def v_write_def)

lemma keeps_new: "keeps n W (\<lambda>r. n \<le> r) (v_new v)"
  by (auto simp: keeps_def v_new_def)

lemma keeps_clone: "keeps n W (\<lambda>r. n \<le> r) (v_clone a)"
  unfolding v_clone_def by (rule keeps_bind, rule keeps_read, rule keeps_new)

lemma keeps_lookAt: "keeps n W (\<lambda>_. True) (v_lookAt a b c)"
  unfolding v_lookAt_def by (rule keeps_bind keeps_read keeps_return | simp)+

lemma keeps_normalize: "n \<le> r \<or> r \<in> W \<Longrightarrow> keeps n W (\<lambda>_. True) (v_normalize r)"
  unfolding v_normalize_def by (rule keeps_bind keeps_read keeps_write | simp)+

lemma keeps_multiplyScalar: "n \<le> r \<or> r \<in> W \<Longrightarrow> keeps n W (\<lambda>_. True) (v_multiplyScalar r k)"
  unfolding v_multiplyScalar_def by (rule keeps_bind keeps_read keeps_write | simp)+

lemma keeps_add: "n \<le> r \<or> r \<in> W \<Longrightarrow> keeps n W (\<lambda>_. True) (v_add r a)"
  unfolding v_add_def by (rule keeps_bind keeps_read keeps_write | simp)+

lemma keeps_copy: "n \<le> r \<or> r \<in> W \<Longrightarrow> keeps n W (\<lambda>_. True) (v_copy r a)"
  unfolding v_copy_def by (rule keeps_bind keeps_read keeps_write | simp)+

lemma keeps_lerp: "n \<le> r \<or> r \<in> W \<Longrightarrow> keeps n W (\<lambda>_. True) (v_lerp r a t)"
  unfolding v_lerp_def by (rule keeps_bind keeps_read keeps_write | simp)+

lemma keeps_applyQuaternion: "n \<le> r \<or> r \<in> W \<Longrightarrow> keeps n W (\<lambda>_. True) (v_applyQuaternion r q)"
  unfolding v_applyQuaternion_def by (rule keeps_bind keeps_read keeps_write | simp)+

lemma keeps_applyEuler: "n \<le> r \<or> r \<in> W \<Longrightarrow> keeps n W (\<lambda>_. True) (v_applyEuler r e)"
  unfolding v_applyEuler_def by (rule keeps_bind keeps_read keeps_write | simp)+

lemma keeps_crossVectors: "n \<le> r \<or> r \<in> W \<Longrightarrow> keeps n W (\<lambda>_. True) (v_crossVectors r a b)"
  unfolding v_crossVectors_def by (rule keeps_bind keeps_read keeps_write | simp)+

lemmas keeps_ops = keeps_normalize keeps_multiplyScalar keeps_add keeps_copy keeps_lerp
  keeps_applyQuaternion keeps_applyEuler keeps_crossVectors

lemma store_poseCockpit_keeps:
  "keeps n {cp, cu} (\<lambda>_. True) (store_poseCockpit gp q mo cp cu)"
  unfolding store_poseCockpit_def
  by (rule keeps_bind keeps_case_option keeps_clone keeps_new keeps_lookAt keeps_return keeps_ops
      | simp)+

lemma store_poseThirdPerson_keeps:
  "keeps n {cp, cu} (\<lambda>_. True) (store_poseThirdPerson gp q st sh cp cu)"
  unfolding store_poseThirdPerson_def
  by (rule keeps_bind keeps_if keeps_clone keeps_new keeps_lookAt keeps_return keeps_ops | simp)+

lemma store_poseOverhead_keeps:
  "keeps n {cp, cu} (\<lambda>_. True) (store_poseOverhead gp q st cp cu)"
  unfolding store_poseOverhead_def
  by (rule keeps_bind keeps_clone keeps_new keeps_lookAt keeps_return keeps_ops | simp)+

lemma keepsD:
  "keeps (next_ref h) W Q m \<Longrightarrow> r < next_ref h \<Longrightarrow> r \<notin> W \<Longrightarrow>
   cells (snd (run_state m h)) r = cells h r"
  by (simp add: keeps_def)

text \<open>
  Run on a store, the three branches compute the camera position, up vector and quaternion
  of the pose functions on values.
\<close>

lemma run_ops:
  "run_state (v_new v) h
     = (next_ref h, h\<lparr>cells := (cells h)(next_ref h := v), next_ref := Suc (next_ref h)\<rparr>)"
  "run_state (v_read r) h = (cells h r, h)"
  "run_state (v_write r v) h = ((), h\<lparr>cells := (cells h)(r := v)\<rparr>)"
  by (simp_all add: v_new_def v_read_def v_write_def)

lemma Suc_chain_neq:
  "(Suc (Suc n) = n) = False" "(n = Suc (Suc n)) = False"
  "(Suc (Suc (Suc n)) = n) = False" "(n = Suc (Suc (Suc n))) = False"
  "(Suc (Suc (Suc (Suc n))) = n) = False" "(n = Suc (Suc (Suc (Suc n)))) = False"
  "(Suc (Suc (Suc (Suc (Suc n)))) = n) = False" "(n = Suc (Suc (Suc (Suc (Suc n))))) = False"
  "(Suc (Suc (Suc (Suc (Suc (Suc n))))) = n) = False"
  "(n = Suc (Suc (Suc (Suc (Suc (Suc n)))))) = False"
  by simp_all

lemma old_neq_fresh:
  "a < n \<Longrightarrow> (a = n) = False"
  "a < n \<Longrightarrow> (a = Suc n) = False"
  "a < n \<Longrightarrow> (a = Suc (Suc n)) = False"
  "a < n \<Longrightarrow> (a = Suc (Suc (Suc n))) = False"
  "a < n \<Longrightarrow> (a = Suc (Suc (Suc (Suc n)))) = False"
  "a < n \<Longrightarrow> (a = Suc (Suc (Suc (Suc (Suc n))))) = False"
  "a < n \<Longrightarrow> (a = Suc (Suc (Suc (Suc (Suc (Suc n)))))) = False"
  "a < n \<Longrightarrow> (n = a) = False"
  "a < n \<Longrightarrow> (Suc n = a) = False"
  "a < n \<Longrightarrow> (Suc (Suc n) = a) = False"
  "a < n \<Longrightarrow> (Suc (Suc (Suc n)) = a) = False"
  "a < n \<Longrightarrow> (Suc (Suc (Suc (Suc n))) = a) = False"
  "a < n \<Longrightarrow> (Suc (Suc (Suc (Suc (Suc n)))) = a) = False"
  "a < n \<Longrightarrow> (Suc (Suc (Suc (Suc (Suc (Suc n))))) = a) = False"
  for a n :: nat
  by simp_all

lemmas store_run = run_ops Suc_chain_neq old_neq_fresh v_clone_def v_normalize_def
  v_multiplyScalar_def v_add_def v_copy_def v_lerp_def v_applyQuaternion_def v_applyEuler_def
  v_crossVectors_def v_lookAt_def

lemma store_poseOverhead_refines:
  fixes q q0 :: rot3 and st :: view_params and f :: real
  assumes "gp < next_ref h" "cp < next_ref h" "cu < next_ref h" "cp \<noteq> cu" "gp \<noteq> cp" "gp \<noteq> cu"
  defines "r \<equiv> run_state (store_poseOverhead gp q st cp cu) h"
    and "k' \<equiv> poseOverhead \<lparr>g_position = cells h gp, g_quaternion = q\<rparr> st
                 \<lparr>c_fov = f, c_position = cells h cp, c_up = cells h cu, c_quaternion = q0\<rparr>"
  shows "cells (snd r) cp = c_position k' \<and> cells (snd r) cu = c_up k' \<and> fst r = c_quaternion k'"
  using assms(1-6) unfolding r_def k'_def
  by (simp add: store_poseOverhead_def poseOverhead_def cameraLookAt_def Let_def store_run
      cong: prod.case_cong_weak)

lemma store_poseThirdPerson_refines:
  fixes q q0 :: rot3 and st :: view_params and sh :: camera_shake and f :: real
  assumes "gp < next_ref h" "cp < next_ref h" "cu < next_ref h" "cp \<noteq> cu" "gp \<noteq> cp" "gp \<noteq> cu"
  defines "r \<equiv> run_state (store_poseThirdPerson gp q st sh cp cu) h"
    and "k' \<equiv> poseThirdPerson \<lparr>g_position = cells h gp, g_quaternion = q\<rparr> st sh
                 \<lparr>c_fov = f, c_position = cells h cp, c_up = cells h cu, c_quaternion = q0\<rparr>"
  shows "cells (snd r) cp = c_position k' \<and> cells (snd r) cu = c_up k' \<and> fst r = c_quaternion k'"
  using assms(1-6) unfolding r_def k'_def
  by (simp add: store_poseThirdPerson_def poseThirdPerson_def cameraLookAt_def Let_def store_run
      cong: prod.case_cong_weak)

lemma store_poseCockpit_refines:
  fixes q q0 :: rot3 and f :: real and mo :: "mesh3d option"
  assumes "gp < next_ref h" "cp < next_ref h" "cu < next_ref h" "cp \<noteq> cu" "gp \<noteq> cp" "gp \<noteq> cu"
  defines "r \<equiv> run_state (store_poseCockpit gp q mo cp cu) h"
    and "p \<equiv> poseCockpit \<lparr>g_position = cells h gp, g_quaternion = q\<rparr> mo
                 \<lparr>c_fov = f, c_position = cells h cp, c_up = cells h cu, c_quaternion = q0\<rparr>"
  shows "cells (snd r) cp = c_position (fst p) \<and> cells (snd r) cu = c_up (fst p)
         \<and> fst r = (case snd p of None \<Rightarrow> Inr (c_quaternion (fst p)) | Some e \<Rightarrow> Inl e)"
  using assms(1-6) unfolding r_def p_def
  by (cases mo)
     (simp_all add: store_poseCockpit_def poseCockpit_def cameraLookAt_def Let_def store_run
        cong: prod.case_cong_weak)

text \<open>
  C9. \<open>Camera.update\<close> and \<open>Earth.updateDayNight\<close> leave the aircraft object, and so every
  field of its state record, as they found it; at the end of a frame the aircraft is exactly
  what \<open>Aircraft.setInput\<close> and \<open>Aircraft.update\<close> made of it, whether or not a later call
  of the frame threw. On the store of vector objects, each branch of the camera pose leaves
  every object that existed before the call, other than \<open>camera.position\<close> and
  \<open>camera.up\<close>, as it was: the aircraft's vectors are cloned before they are worked on.
\<close>

theorem only_the_flight_model_writes_the_aircraft:
  "w_aircraft (fst (frame_Camera_update dt w)) = w_aircraft w
   \<and> w_aircraft (fst (frame_updateDayNight utc mode w)) = w_aircraft w
   \<and> w_aircraft (fst (animate i dt utc mode w))
       = fst (Aircraft_update dt (Aircraft_setInput i (w_aircraft w)))
   \<and> (r < next_ref h \<and> r \<noteq> cp \<and> r \<noteq> cu \<longrightarrow>
        cells (snd (run_state (store_poseCockpit gp q mo cp cu) h)) r = cells h r
        \<and> cells (snd (run_state (store_poseThirdPerson gp q st sh cp cu) h)) r = cells h r
        \<and> cells (snd (run_state (store_poseOverhead gp q st cp cu) h)) r = cells h r)"
proof -
  define w0 where "w0 = w\<lparr>w_aircraft := Aircraft_setInput i (w_aircraft w)\<rparr>"
  define r1 where "r1 = frame_Aircraft_update dt w0"
  define r2 where "r2 = andThen r1 (frame_Camera_update dt)"
  have "w_aircraft (fst (andThen r2 (frame_updateDayNight utc mode))) = w_aircraft (fst r2)"
    by (rule andThen_preserves) (rule frame_updateDayNight_aircraft)
  also have "\<dots> = w_aircraft (fst r1)"
    unfolding r2_def by (rule andThen_preserves) (rule frame_Camera_update_aircraft)
  also have "\<dots> = fst (Aircraft_update dt (Aircraft_setInput i (w_aircraft w)))"
    by (simp add: r1_def w0_def frame_Aircraft_update_aircraft)
  finally have whole: "w_aircraft (fst (animate i dt utc mode w))
       = fst (Aircraft_update dt (Aircraft_setInput i (w_aircraft w)))"
    by (simp add: animate_def r2_def r1_def w0_def)
  have "r < next_ref h \<Longrightarrow> r \<notin> {cp, cu} \<Longrightarrow>
        cells (snd (run_state (store_poseCockpit gp q mo cp cu) h)) r = cells h r"
    by (rule keepsD) (rule store_poseCockpit_keeps)
  moreover have "r < next_ref h \<Longrightarrow> r \<notin> {cp, cu} \<Longrightarrow>
        cells (snd (run_state (store_poseThirdPerson gp q st sh cp cu) h)) r = cells h r"
    by (rule keepsD) (rule store_poseThirdPerson_keeps)
  moreover have "r < next_ref h \<Longrightarrow> r \<notin> {cp, cu} \<Longrightarrow>
        cells (snd (run_state (store_poseOverhead gp q st cp cu) h)) r = cells h r"
    by (rule keepsD) (rule store_poseOverhead_keeps)
  ultimately have store: "r < next_ref h \<and> r \<noteq> cp \<and> r \<noteq> cu \<longrightarrow>
        cells (snd (run_state (store_poseCockpit gp q mo cp cu) h)) r = cells h r
        \<and> cells (snd (run_state (store_poseThirdPerson gp q st sh cp cu) h)) r = cells h r
        \<and> cells (snd (run_state (store_poseOverhead gp q st cp cu) h)) r = cells h r"
    by simp
  from whole store show ?thesis
    by (simp add: frame_Camera_update_aircraft frame_updateDayNight_aircraft)
qed

theorem only_the_flight_model_writes_the_aircraft_witness:
  "0 < next_ref scene_store
   \<and> cells (snd (run_state (store_poseThirdPerson 0 identity_rotation (cam_state camera_ready)
                              \<lparr>intensity = 0.05, shake_time = 1\<rparr> 3 4) scene_store)) 0
       = Vector3 102 0 0
   \<and> cells (snd (run_state (store_poseCockpit 0 identity_rotation None 3 4) scene_store)) 0
       = Vector3 102 0 0"
proof -
  have n: "(0::nat) < next_ref scene_store" by (simp add: scene_store_def)
  have c: "cells scene_store 0 = Vector3 102 0 0" by (simp add: scene_store_def)
  note th = only_the_flight_model_writes_the_aircraft
              [where r = 0 and h = scene_store and cp = 3 and cu = 4 and gp = 0
                 and q = identity_rotation and mo = None and st = "cam_state camera_ready"
                 and sh = "\<lparr>intensity = 0.05, shake_time = 1\<rparr>"]
  from th n c show ?thesis by simp
qed

end
